theory Spec2Isabelle
  imports Complex_Main
begin

section \<open>Exceptions and Python string primitives\<close>

text \<open>
  Every exception class that the adapter raises, or that a Python primitive it uses can
  raise, is a constructor; a raising function returns \<open>Inl\<close> of it.
\<close>

datatype error =
    ConfigurationError string
  | CommandFailed string
  | OperationFailed string
  | HttpError nat
  | KeyError string
  | TypeError string
  | ValueError string
  | AttributeError string
  | IndexError string
  | OtherException string

fun error_class_name :: "error \<Rightarrow> string" where
  "error_class_name (ConfigurationError m) = ''ConfigurationError''"
| "error_class_name (CommandFailed m) = ''CommandFailed''"
| "error_class_name (OperationFailed m) = ''OperationFailed''"
| "error_class_name (HttpError n) = ''HttpError''"
| "error_class_name (KeyError k) = ''KeyError''"
| "error_class_name (TypeError m) = ''TypeError''"
| "error_class_name (ValueError m) = ''ValueError''"
| "error_class_name (AttributeError m) = ''AttributeError''"
| "error_class_name (IndexError m) = ''IndexError''"
| "error_class_name (OtherException m) = ''Exception''"

text \<open>\<open>str(exc)\<close>; a \<open>KeyError\<close> prints its key in quotes.\<close>

fun error_str :: "error \<Rightarrow> string" where
  "error_str (ConfigurationError m) = m"
| "error_str (CommandFailed m) = m"
| "error_str (OperationFailed m) = m"
| "error_str (HttpError n) = ''HttpError''"
| "error_str (KeyError k) = [CHR 0x27] @ k @ [CHR 0x27]"
| "error_str (TypeError m) = m"
| "error_str (ValueError m) = m"
| "error_str (AttributeError m) = m"
| "error_str (IndexError m) = m"
| "error_str (OtherException m) = m"

text \<open>\<open>s.split(c)\<close> for a one-character separator: never empty, \<open>''.split(c) == ['']\<close>.\<close>

fun split_on :: "char \<Rightarrow> string \<Rightarrow> string list" where
  "split_on c [] = [[]]"
| "split_on c (x # xs) =
     (if x = c then [] # split_on c xs
      else (case split_on c xs of
              [] \<Rightarrow> [[x]]
            | p # ps \<Rightarrow> (x # p) # ps))"

text \<open>\<open>s.rsplit(c, 1)\<close>: one piece when \<open>c\<close> does not occur, else two.\<close>

definition rsplit1 :: "char \<Rightarrow> string \<Rightarrow> string list" where
  "rsplit1 c s =
     (if c \<in> set s
      then [rev (tl (dropWhile (\<lambda>x. x \<noteq> c) (rev s))), rev (takeWhile (\<lambda>x. x \<noteq> c) (rev s))]
      else [s])"

text \<open>
  \<open>s.lower()\<close> and \<open>s.strip()\<close> on ASCII text, which is what settings are written in,
  and \<open>s.startswith(p)\<close>.
\<close>

definition lower_char :: "char \<Rightarrow> char" where
  "lower_char c =
     (case map_of (zip ''ABCDEFGHIJKLMNOPQRSTUVWXYZ'' ''abcdefghijklmnopqrstuvwxyz'') c of
        None \<Rightarrow> c
      | Some d \<Rightarrow> d)"

definition lower :: "string \<Rightarrow> string" where
  "lower s = map lower_char s"

definition startswith :: "string \<Rightarrow> string \<Rightarrow> bool" where
  "startswith s p = (take (length p) s = p)"

definition is_space :: "char \<Rightarrow> bool" where
  "is_space c =
     (c \<in> set [CHR 0x09, CHR 0x0A, CHR 0x0B, CHR 0x0C, CHR 0x0D, CHR 0x1C, CHR 0x1D, CHR 0x1E,
                CHR 0x1F, CHR 0x20])"

definition strip :: "string \<Rightarrow> string" where
  "strip s = rev (dropWhile is_space (rev (dropWhile is_space s)))"

text \<open>
  \<open>int(s)\<close> in base ten: surrounding whitespace is dropped, one sign is allowed, and the
  rest must be decimal digits, single underscores allowed between two digits. Anything
  else raises \<open>ValueError\<close>.
\<close>

definition is_digit :: "char \<Rightarrow> bool" where
  "is_digit c = (c \<in> set ''0123456789'')"

definition digit_value :: "char \<Rightarrow> nat" where
  "digit_value c =
     (case map_of (zip ''0123456789'' [0, 1, 2, 3, 4, 5, 6, 7, 8, 9]) c of
        None \<Rightarrow> 0
      | Some d \<Rightarrow> d)"

fun digits_ok :: "string \<Rightarrow> bool" where
  "digits_ok [] = False"
| "digits_ok [c] = is_digit c"
| "digits_ok (c # d # cs) =
     (if is_digit c then
        (if d = CHR ''_'' then digits_ok cs else digits_ok (d # cs))
      else False)"

fun digits_value :: "nat \<Rightarrow> string \<Rightarrow> nat" where
  "digits_value acc [] = acc"
| "digits_value acc (c # cs) =
     (if c = CHR ''_'' then digits_value acc cs
      else digits_value (10 * acc + digit_value c) cs)"

definition py_int :: "string \<Rightarrow> error + int" where
  "py_int s =
     (let t = strip s;
          neg = (case t of [] \<Rightarrow> False | c # _ \<Rightarrow> c = CHR ''-'');
          body = (case t of [] \<Rightarrow> []
                  | c # cs \<Rightarrow> if c = CHR ''-'' \<or> c = CHR ''+'' then cs else t)
      in if digits_ok body
         then Inr (if neg then - int (digits_value 0 body) else int (digits_value 0 body))
         else Inl (ValueError (''invalid literal for int() with base 10: '' @ [CHR 0x27] @ s @ [CHR 0x27])))"

text \<open>\<open>'%d' % n\<close> and \<open>'%02d' % n\<close>.\<close>

fun nat_digits :: "nat \<Rightarrow> string" where
  "nat_digits n =
     (if n < 10 then [''0123456789'' ! n]
      else nat_digits (n div 10) @ [''0123456789'' ! (n mod 10)])"

definition format_d :: "int \<Rightarrow> string" where
  "format_d n = (if n < 0 then CHR ''-'' # nat_digits (nat (- n)) else nat_digits (nat n))"

definition format_02d :: "int \<Rightarrow> string" where
  "format_02d n = (if length (format_d n) < 2 then CHR ''0'' # format_d n else format_d n)"

section \<open>Configuration parsing\<close>

definition GCE_URL :: string where
  "GCE_URL = ''https://www.googleapis.com/compute/v1/projects/''"

record access_config =
  ac_type :: string
  ac_name :: string

definition EXTERNAL_NETWORK_ACCESS_CONFIG :: "access_config list" where
  "EXTERNAL_NETWORK_ACCESS_CONFIG = [\<lparr>ac_type = ''ONE_TO_ONE_NAT'', ac_name = ''External NAT''\<rparr>]"

text \<open>
  A network definition is the triple \<open>(network, subnet, flags)\<close> that
  \<open>split_three_item_value\<close> makes of \<open>network[:subnet[:flags]]\<close>.
\<close>

type_synonym network_def = "string \<times> string option \<times> string option"

definition count_char :: "char \<Rightarrow> string \<Rightarrow> nat" where
  "count_char c s = length (filter (\<lambda>x. x = c) s)"

definition split_three_item_value :: "string \<Rightarrow> network_def" where
  "split_three_item_value val =
     (if count_char CHR '':'' val = 2 then
        (case split_on CHR '':'' val of
           [t1, t2, t3] \<Rightarrow> (t1, Some t2, Some t3)
         | _ \<Rightarrow> (val, None, None))
      else if count_char CHR '':'' val = 1 then
        (case split_on CHR '':'' val of
           [t1, t2] \<Rightarrow> (t1, Some t2, None)
         | _ \<Rightarrow> (val, None, None))
      else (val, None, None))"

definition split_forward_slash_value :: "string \<Rightarrow> string \<Rightarrow> string \<times> string" where
  "split_forward_slash_value val dflt =
     (if CHR ''/'' \<in> set val
      then (takeWhile (\<lambda>x. x \<noteq> CHR ''/'') val, tl (dropWhile (\<lambda>x. x \<noteq> CHR ''/'') val))
      else (dflt, val))"

text \<open>
  The flags dictionary has the keys \<open>external\<close> and \<open>primary\<close> at most. The flags are
  read in order, so the last \<open>ext\<close>/\<open>noext\<close> decides; the test for \<open>ext\<close> comes first,
  as in the source.
\<close>

type_synonym network_flags = "string \<rightharpoonup> bool"

fun get_network_flags_loop :: "string list \<Rightarrow> network_flags \<Rightarrow> error + network_flags" where
  "get_network_flags_loop [] result = Inr result"
| "get_network_flags_loop (network_arg # rest) result =
     (if network_arg = [] then get_network_flags_loop rest result
      else if startswith (lower network_arg) ''ext''
        then get_network_flags_loop rest (result(''external'' \<mapsto> True))
      else if startswith (lower network_arg) ''noext''
        then get_network_flags_loop rest (result(''external'' \<mapsto> False))
      else if startswith (lower network_arg) ''pri''
        then get_network_flags_loop rest (result(''primary'' \<mapsto> True))
      else Inl (ConfigurationError (''Invalid network flag: ['' @ network_arg @ '']'')))"

definition get_network_flags :: "string option \<Rightarrow> error + network_flags" where
  "get_network_flags network_args =
     (case network_args of
        None \<Rightarrow> Inr Map.empty
      | Some a \<Rightarrow> get_network_flags_loop (split_on CHR '';'' a) Map.empty)"

definition is_network_flag_set :: "network_flags \<Rightarrow> string \<Rightarrow> bool \<Rightarrow> bool" where
  "is_network_flag_set network_flags flag dflt =
     (case network_flags flag of None \<Rightarrow> dflt | Some b \<Rightarrow> b)"

record network_interface =
  ni_network :: string
  ni_subnetwork :: "string option"
  ni_accessConfigs :: "access_config list option"

definition set_external_network_access :: "network_interface \<Rightarrow> network_interface" where
  "set_external_network_access network_interface =
     network_interface\<lparr>ni_accessConfigs := Some EXTERNAL_NETWORK_ACCESS_CONFIG\<rparr>"

definition enable_external_network_access ::
  "network_def list \<Rightarrow> network_interface list \<Rightarrow> error + network_interface list" where
  "enable_external_network_access networks network_interfaces =
     (case (networks, network_interfaces) of
        ([(network_def, _, network_args)], first # others) \<Rightarrow>
          (if network_def = ''default''
           then Inr (set_external_network_access first # others)
           else (case get_network_flags network_args of
                   Inl e \<Rightarrow> Inl e
                 | Inr flags \<Rightarrow>
                     if is_network_flag_set flags ''external'' True
                     then Inr (set_external_network_access first # others)
                     else Inr network_interfaces))
      | _ \<Rightarrow> Inr network_interfaces)"

definition get_network_interface ::
  "string \<Rightarrow> string \<Rightarrow> network_def \<Rightarrow> error + (network_interface \<times> network_flags)" where
  "get_network_interface default_project default_region network =
     (case network of (network_def, subnet_def, network_args) \<Rightarrow>
        (case split_forward_slash_value network_def default_project of (project, net) \<Rightarrow>
           (let network_interface =
                  \<lparr>ni_network = GCE_URL @ project @ ''/global/networks/'' @ net,
                   ni_subnetwork =
                     (case subnet_def of
                        None \<Rightarrow> None
                      | Some sd \<Rightarrow>
                          if sd = [] then None
                          else (case split_forward_slash_value sd default_region of
                                  (region, subnetwork) \<Rightarrow>
                                    Some (GCE_URL @ project @ ''/regions/'' @ region
                                          @ ''/subnetworks/'' @ subnetwork))),
                   ni_accessConfigs = None\<rparr>
            in (case get_network_flags network_args of
                  Inl e \<Rightarrow> Inl e
                | Inr flags \<Rightarrow> Inr (network_interface, flags)))))"

text \<open>
  The loop of \<open>__get_network_interface_definitions\<close>: \<open>primary_intfc\<close> is the network
  already marked primary, \<open>network_interfaces\<close> the list built so far.
\<close>

fun network_interface_loop ::
  "string \<Rightarrow> string \<Rightarrow> network_def list \<Rightarrow> network_def option \<Rightarrow> network_interface list
     \<Rightarrow> error + network_interface list" where
  "network_interface_loop project region [] primary_intfc network_interfaces =
     Inr network_interfaces"
| "network_interface_loop project region (network # rest) primary_intfc network_interfaces =
     (case get_network_interface project region network of
        Inl e \<Rightarrow> Inl e
      | Inr (network_interface, network_flags) \<Rightarrow>
          if network_flags ''primary'' = Some True \<and> primary_intfc \<noteq> None
          then Inl (ConfigurationError
                 (''Only one interface may be primary: '' @ fst network
                  @ '' is already marked as primary''))
          else network_interface_loop project region rest
                 (if network_flags ''primary'' = Some True then Some network else primary_intfc)
                 (network_interfaces @
                    [if is_network_flag_set network_flags ''external'' False
                     then set_external_network_access network_interface
                     else network_interface]))"

definition get_network_interface_definitions ::
  "string \<Rightarrow> string \<Rightarrow> network_def list \<Rightarrow> error + network_interface list" where
  "get_network_interface_definitions project region networks =
     (case network_interface_loop project region networks None [] of
        Inl e \<Rightarrow> Inl e
      | Inr network_interfaces \<Rightarrow> enable_external_network_access networks network_interfaces)"

record accelerator =
  acceleratorType :: string
  acceleratorCount :: int

fun parse_accelerator_loop :: "string list \<Rightarrow> accelerator list \<Rightarrow> error + accelerator list" where
  "parse_accelerator_loop [] accel = Inr accel"
| "parse_accelerator_loop (s # rest) accel =
     (case split_on CHR '':'' (strip s) of
        [acc_type, cnt] \<Rightarrow>
          (case py_int cnt of
             Inl e \<Rightarrow> Inl e
           | Inr n \<Rightarrow>
               parse_accelerator_loop rest
                 (accel @ [\<lparr>acceleratorType = acc_type, acceleratorCount = n\<rparr>]))
      | _ \<Rightarrow> Inl (ConfigurationError ''Invalid Accelerator Configuration''))"

definition parse_accelerator :: "string \<Rightarrow> error + accelerator list" where
  "parse_accelerator accelerator_string =
     parse_accelerator_loop (split_on CHR '','' accelerator_string) []"

text \<open>
  The settings that \<open>process_config\<close> reads and writes when it derives the region and the
  network list, its last two steps; the checks of the scopes and the tags and the DNS
  defaults that come before do not touch these keys. \<open>cfg_region\<close> is the \<open>region\<close> key, which no setting defines: it is present
  only when the caller's dictionary already holds it. The handler of the failed unpacking
  formats \<open>config['region']\<close>, so it raises \<open>KeyError\<close> when the key is absent.
\<close>

record raw_config =
  cfg_zone :: string
  cfg_region :: "string option"
  cfg_network :: "string list option"
  cfg_networks :: "string list option"

record parsed_config =
  pc_zone :: string
  pc_region :: string
  pc_networks :: "network_def list"

definition process_config :: "raw_config \<Rightarrow> error + parsed_config" where
  "process_config config =
     (case rsplit1 CHR ''-'' (cfg_zone config) of
        [region, _] \<Rightarrow>
          Inr \<lparr>pc_zone = cfg_zone config,
               pc_region = region,
               pc_networks =
                 map split_three_item_value
                   (case cfg_network config of
                      Some network_defs \<Rightarrow> network_defs
                    | None \<Rightarrow>
                        (case cfg_networks config of
                           Some network_defs \<Rightarrow> network_defs
                         | None \<Rightarrow> [''default'']))\<rparr>
      | _ \<Rightarrow>
          (case cfg_region config of
             None \<Rightarrow> Inl (KeyError ''region'')
           | Some r \<Rightarrow>
               Inl (ConfigurationError (''Invalid format for 'region' setting: '' @ r))))"

subsection \<open>Predicates on network definitions used in the statements\<close>

text \<open>
  An entry carries the primary flag when its flags parse and set \<open>primary\<close>; its flags
  are valid when they parse. \<open>resolved_interface n y\<close> says that interface \<open>y\<close> has
  external access exactly when the flags of \<open>n\<close> set \<open>external\<close> to true.
\<close>

definition primary_flagged :: "network_def \<Rightarrow> bool" where
  "primary_flagged network =
     (case get_network_flags (snd (snd network)) of
        Inl _ \<Rightarrow> False
      | Inr flags \<Rightarrow> flags ''primary'' = Some True)"

definition flags_valid :: "network_def \<Rightarrow> bool" where
  "flags_valid network =
     (case get_network_flags (snd (snd network)) of Inl _ \<Rightarrow> False | Inr _ \<Rightarrow> True)"

definition resolved_interface :: "network_def \<Rightarrow> network_interface \<Rightarrow> bool" where
  "resolved_interface n y =
     (case get_network_flags (snd (snd n)) of
        Inl _ \<Rightarrow> False
      | Inr flags \<Rightarrow>
          ni_accessConfigs y =
            (if flags ''external'' = Some True then Some EXTERNAL_NETWORK_ACCESS_CONFIG
             else None))"

section \<open>Cloud operations and the two pollers\<close>

text \<open>
  An operation as the backend describes it. \<open>op_error\<close> is the \<open>error\<close> field, when
  present, as the list of \<open>(message, code)\<close> of its \<open>errors\<close>.
\<close>

record operation =
  op_name :: string
  op_status :: string
  op_zone :: "string option"
  op_error :: "(string \<times> string) list option"
  op_targetLink :: "string option"

text \<open>
  One \<open>get(...).execute()\<close> on an operation raises, returns a falsy response (\<open>None\<close>),
  or returns the operation's new description.
\<close>

type_synonym poll_answer = "error + operation option"

record instance_disk =
  idisk_boot :: bool
  idisk_sourceImage :: "string option"
  idisk_diskSizeGb :: "real option"
  idisk_diskType :: "string option"
  idisk_source :: "string option"

record launch_spec =
  ls_name :: string
  ls_tags :: "string list"
  ls_machineType :: string
  ls_disks :: "instance_disk list"
  ls_networkInterfaces :: "network_interface list"
  ls_preemptible :: "bool option"
  ls_onHostMaintenance :: "string option"
  ls_guestAccelerators :: "accelerator list option"
  ls_metadata :: "(string \<times> string) list"

text \<open>The calls made on the cloud gateway, with their arguments, in the order made.\<close>

datatype cloud_call =
    ZoneOperationsGet string string string
  | GlobalOperationsGet string string
  | DisksInsert string string string real
  | InstancesInsert string string launch_spec
  | InstancesGet string string string
  | InstancesDelete string string string
  | ImagesGet "string option" string
  | ImagesGetFromFamily "string option" string

text \<open>
  What a polling call did: the gateway calls, the sleeps in seconds, and how it ended.
  The answers of the backend are a finite list; \<open>run_outcome = None\<close> means that the list
  ran out while the operation was still not \<open>DONE\<close>, so the loop was still polling.
\<close>

record poll_run =
  run_calls :: "cloud_call list"
  run_sleeps :: "real list"
  run_outcome :: "(error + operation option) option"

definition run_step :: "cloud_call \<Rightarrow> real list \<Rightarrow> poll_run \<Rightarrow> poll_run" where
  "run_step call slept run =
     run\<lparr>run_calls := call # run_calls run, run_sleeps := slept @ run_sleeps run\<rparr>"

definition operations_get :: "string \<Rightarrow> operation \<Rightarrow> cloud_call" where
  "operations_get project_id response =
     (case op_zone response of
        Some z \<Rightarrow> ZoneOperationsGet project_id (op_name response) (last (split_on CHR ''/'' z))
      | None \<Rightarrow> GlobalOperationsGet project_id (op_name response))"

text \<open>\<open>time.sleep\<close> refuses a negative length.\<close>

definition time_sleep :: "int \<Rightarrow> error + real" where
  "time_sleep secs =
     (if secs < 0 then Inl (ValueError ''sleep length must be non-negative'')
      else Inr (real_of_int secs))"

fun blocking_call_loop :: "string \<Rightarrow> int \<Rightarrow> poll_answer list \<Rightarrow> operation \<Rightarrow> poll_run" where
  "blocking_call_loop project_id polling_interval [] response =
     (if op_status response = ''DONE''
      then \<lparr>run_calls = [], run_sleeps = [], run_outcome = Some (Inr (Some response))\<rparr>
      else \<lparr>run_calls = [], run_sleeps = [], run_outcome = None\<rparr>)"
| "blocking_call_loop project_id polling_interval (answer # answers) response =
     (if op_status response = ''DONE''
      then \<lparr>run_calls = [], run_sleeps = [], run_outcome = Some (Inr (Some response))\<rparr>
      else
        (case answer of
           Inl e \<Rightarrow>
             \<lparr>run_calls = [operations_get project_id response], run_sleeps = [],
              run_outcome = Some (Inl e)\<rparr>
         | Inr None \<Rightarrow>
             \<lparr>run_calls = [operations_get project_id response], run_sleeps = [],
              run_outcome = Some (Inr None)\<rparr>
         | Inr (Some response') \<Rightarrow>
             if op_status response' \<noteq> ''DONE'' then
               (case time_sleep polling_interval of
                  Inl e \<Rightarrow>
                    \<lparr>run_calls = [operations_get project_id response], run_sleeps = [],
                     run_outcome = Some (Inl e)\<rparr>
                | Inr t \<Rightarrow>
                    run_step (operations_get project_id response) [t]
                      (blocking_call_loop project_id polling_interval answers response'))
             else
               run_step (operations_get project_id response) []
                 (blocking_call_loop project_id polling_interval answers response')))"

definition NoneType_not_subscriptable :: string where
  "NoneType_not_subscriptable =
     [CHR 0x27] @ ''NoneType'' @ [CHR 0x27] @ '' object is not subscriptable''"

text \<open>
  \<open>_blocking_call\<close> reads \<open>response['status']\<close> before the loop, which raises
  \<open>TypeError\<close> when the response is \<open>None\<close>.
\<close>

definition blocking_call ::
  "string \<Rightarrow> operation option \<Rightarrow> int \<Rightarrow> poll_answer list \<Rightarrow> poll_run" where
  "blocking_call project_id response polling_interval answers =
     (case response of
        None \<Rightarrow>
          \<lparr>run_calls = [], run_sleeps = [],
           run_outcome = Some (Inl (TypeError NoneType_not_subscriptable))\<rparr>
      | Some r \<Rightarrow> blocking_call_loop project_id polling_interval answers r)"

subsection \<open>The backoff of the cooperative poller\<close>

definition max_sleep_time :: int where
  "max_sleep_time = 5000"

definition backoff_temp :: "int \<Rightarrow> nat \<Rightarrow> int" where
  "backoff_temp polling_interval attempt =
     min max_sleep_time ((polling_interval * 1000) * 2 ^ attempt)"

text \<open>
  \<open>random.randint(a, b)\<close> draws from \<open>a..b\<close> and raises \<open>ValueError\<close> on an empty
  range; \<open>seed\<close> is the raw value of the generator for this draw, so every value of the
  range can come out and no other.
\<close>

definition randint :: "int \<Rightarrow> int \<Rightarrow> nat \<Rightarrow> error + int" where
  "randint a b seed =
     (if b < a then Inl (ValueError ''empty range for randrange()'')
      else Inr (a + int (seed mod nat (b - a + 1))))"

text \<open>
  The sleep, in seconds, before the retry that follows attempt number \<open>attempt\<close>. The
  source passes the float \<open>temp / 2\<close> to \<open>randint\<close>, which the Python releases of its
  time accept when the float is a whole number; \<open>temp\<close> is even from attempt 1 on (it is
  5000 or a multiple of 2000), so the bound is the integer \<open>temp div 2\<close>. The sleep is
  a real number here: the rounding of the float division is left out.
\<close>

definition sleeptime :: "int \<Rightarrow> nat \<Rightarrow> nat \<Rightarrow> error + real" where
  "sleeptime polling_interval attempt seed =
     (if attempt > 0 then
        (case randint 0 (backoff_temp polling_interval attempt div 2) seed of
           Inl e \<Rightarrow> Inl e
         | Inr r \<Rightarrow>
             Inr ((real_of_int (backoff_temp polling_interval attempt) / 2 + real_of_int r)
                  / 1000))
      else Inr 10)"

fun gevent_blocking_call_loop ::
  "string \<Rightarrow> int \<Rightarrow> (nat \<Rightarrow> nat) \<Rightarrow> nat \<Rightarrow> poll_answer list \<Rightarrow> operation \<Rightarrow> poll_run" where
  "gevent_blocking_call_loop project_id polling_interval rnd attempt [] response =
     (if op_status response = ''DONE''
      then \<lparr>run_calls = [], run_sleeps = [], run_outcome = Some (Inr (Some response))\<rparr>
      else \<lparr>run_calls = [], run_sleeps = [], run_outcome = None\<rparr>)"
| "gevent_blocking_call_loop project_id polling_interval rnd attempt (answer # answers) response =
     (if op_status response = ''DONE''
      then \<lparr>run_calls = [], run_sleeps = [], run_outcome = Some (Inr (Some response))\<rparr>
      else
        (case answer of
           Inl e \<Rightarrow>
             \<lparr>run_calls = [operations_get project_id response], run_sleeps = [],
              run_outcome = Some (Inl e)\<rparr>
         | Inr None \<Rightarrow>
             \<lparr>run_calls = [operations_get project_id response], run_sleeps = [],
              run_outcome = Some (Inr None)\<rparr>
         | Inr (Some response') \<Rightarrow>
             if op_status response' \<noteq> ''DONE'' then
               (case sleeptime polling_interval attempt (rnd attempt) of
                  Inl e \<Rightarrow>
                    \<lparr>run_calls = [operations_get project_id response], run_sleeps = [],
                     run_outcome = Some (Inl e)\<rparr>
                | Inr t \<Rightarrow>
                    run_step (operations_get project_id response) [t]
                      (gevent_blocking_call_loop project_id polling_interval rnd (Suc attempt)
                         answers response'))
             else
               run_step (operations_get project_id response) []
                 (gevent_blocking_call_loop project_id polling_interval rnd (Suc attempt)
                    answers response')))"

definition gevent_blocking_call ::
  "string \<Rightarrow> operation option \<Rightarrow> int \<Rightarrow> (nat \<Rightarrow> nat) \<Rightarrow> poll_answer list \<Rightarrow> poll_run" where
  "gevent_blocking_call project_id response polling_interval rnd answers =
     (case response of
        None \<Rightarrow>
          \<lparr>run_calls = [], run_sleeps = [],
           run_outcome = Some (Inl (TypeError NoneType_not_subscriptable))\<rparr>
      | Some r \<Rightarrow> gevent_blocking_call_loop project_id polling_interval rnd 0 answers r)"

text \<open>
  The mean of the sleep after attempt \<open>attempt\<close>, in seconds, over the equally likely
  draws \<open>0..temp div 2\<close>.
\<close>

definition expected_sleeptime :: "int \<Rightarrow> nat \<Rightarrow> real" where
  "expected_sleeptime polling_interval attempt =
     (\<Sum>r = 0..nat (backoff_temp polling_interval attempt div 2).
        (real_of_int (backoff_temp polling_interval attempt) / 2 + real r) / 1000)
     / real (nat (backoff_temp polling_interval attempt div 2) + 1)"

text \<open>An operation that is still running, for the examples.\<close>

definition running_op :: operation where
  "running_op = \<lparr>op_name = ''operation-1'', op_status = ''RUNNING'',
     op_zone = Some ''projects/proj/zones/us-central1-a'', op_error = None,
     op_targetLink = None\<rparr>"

section \<open>Nodes, requests and the state the orchestrator acts on\<close>

datatype node_state = NODE_STATE_LAUNCHING | NODE_STATE_INSTALLED | NODE_STATE_PROVISIONED

record nic =
  nic_ip :: string
  nic_boot :: bool

record instance_mapping =
  im_instance :: string
  im_instance_metadata :: "(string \<times> string) list"

record node =
  node_name :: string
  node_state :: node_state
  node_nics :: "nic list"
  node_instance :: "instance_mapping option"

text \<open>
  The request dictionary. Its \<open>status\<close> is one of the strings \<open>pending\<close>, \<open>success\<close> and
  \<open>error\<close>; the source has no fourth value for a submitted request, which is a pending
  request that holds a \<open>response\<close>. The other keys are absent until they are set.
\<close>

datatype status = Status_pending | Status_success | Status_error

record node_request =
  nr_node :: node
  nr_status :: status
  nr_message :: "string option"
  nr_instance_name :: "string option"
  nr_response :: "operation option"
  nr_result :: "operation option"

record vm_network_interface =
  vni_networkIP :: "string option"

record vm_instance =
  vm_networkInterfaces :: "vm_network_interface list option"

record disk =
  disk_adapter :: string
  disk_size :: int
  disk_sanVolume :: string

record persistent_disk =
  pd_name :: "string option"
  pd_sizeGb :: real
  pd_link :: "string option"

datatype image_selector = Image string | Image_family string | Image_url string

record config =
  conf_project :: string
  conf_zone :: string
  conf_region :: string
  conf_networks :: "network_def list"
  conf_image :: image_selector
  conf_accelerators :: "string option"
  conf_sleeptime :: int
  conf_disksize :: int
  conf_type :: string
  conf_ssd :: bool
  conf_tags :: "string list"

record common_launch_args =
  cla_image_url :: string
  cla_network_interfaces :: "network_interface list"
  cla_preemptible :: bool
  cla_accelerators :: "accelerator list option"

datatype log_event =
    Warning_only_launched nat nat
  | Warning_instance_not_found string
  | Error_cleaning_up_failed_instance string string
  | Error_cleaning_up_node string
  | Error_vm_went_away string
  | Error_vm_no_ip_address string
  | Error_post_launch string
  | Error_gce string
  | Error_unable_to_get_instance string
  | Error_message string
  | Exception_blocking_call_failed string

text \<open>
  Everything the orchestrator changes outside its own variables: the trace of gateway
  calls and of sleeps, the node records of the database session and the number of
  commits, the drives the storage catalog tracks, the nodes of the add-host session, the
  hosts registered by \<open>_pre_add_host\<close>, the provisioned events and the log.
\<close>

record world =
  cloud_calls :: "cloud_call list"
  sleeps :: "real list"
  db_nodes :: "string list"
  db_commits :: nat
  san_drives :: "(string \<times> int) list"
  session_nodes :: "string list"
  registered_hosts :: "(string \<times> string) list"
  provisioned_events :: "string list"
  log :: "log_event list"

text \<open>
  What the collaborators answer. The keys of the dictionaries of the storage catalog have
  a type \<open>'k\<close> that the source only sorts and passes to \<open>int\<close>; \<open>env_disk_index_int\<close> is
  that conversion. A gateway call raises (\<open>Inl\<close>, or \<open>Some\<close> of an error) or answers; the
  answers to the successive polls of an operation, and the raw random values of its
  backoff, are looked up by the operation's name.
\<close>

record 'k env =
  env_disk_index_int :: "'k \<Rightarrow> int"
  env_added_disks :: "string \<Rightarrow> ('k \<times> disk) list"
  env_removed_disks :: "string \<Rightarrow> ('k \<times> disk) list"
  env_disks_insert :: "string \<Rightarrow> error option"
  env_instances_insert :: "string \<Rightarrow> error + operation"
  env_operation_answers :: "string \<Rightarrow> poll_answer list"
  env_random :: "string \<Rightarrow> nat \<Rightarrow> nat"
  env_instances_get :: "string \<Rightarrow> error + vm_instance"
  env_instances_delete :: "string \<Rightarrow> error option"
  env_images_get :: "string option \<Rightarrow> string \<Rightarrow> error + string"
  env_images_getFromFamily :: "string option \<Rightarrow> string \<Rightarrow> error + string"
  env_instance_metadata :: "string \<Rightarrow> error + (string \<times> string) list"
  env_pre_add_host :: "string \<Rightarrow> string \<Rightarrow> error option"

definition record_call :: "cloud_call \<Rightarrow> world \<Rightarrow> world" where
  "record_call c w = w\<lparr>cloud_calls := cloud_calls w @ [c]\<rparr>"

definition record_log :: "log_event \<Rightarrow> world \<Rightarrow> world" where
  "record_log l w = w\<lparr>log := log w @ [l]\<rparr>"

definition absorb_run :: "poll_run \<Rightarrow> world \<Rightarrow> world" where
  "absorb_run run w =
     w\<lparr>cloud_calls := cloud_calls w @ run_calls run, sleeps := sleeps w @ run_sleeps run\<rparr>"

definition get_instance_name_from_host_name :: "string \<Rightarrow> string" where
  "get_instance_name_from_host_name hostname = takeWhile (\<lambda>x. x \<noteq> CHR ''.'') hostname"

definition get_disk_volume_name :: "string \<Rightarrow> int \<Rightarrow> string" where
  "get_disk_volume_name instance_name diskNumber =
     instance_name @ ''-disk-'' @ format_02d diskNumber"

section \<open>Disk provisioning\<close>

text \<open>
  \<open>__create_persistent_disk\<close> submits the disk-create call and returns nothing: the
  operation that \<open>execute()\<close> answers is dropped.
\<close>

definition create_persistent_disk ::
  "'k env \<Rightarrow> config \<Rightarrow> string \<Rightarrow> real \<Rightarrow> world \<Rightarrow> error option \<times> world" where
  "create_persistent_disk env cfg volume_name size_in_Gb w =
     (env_disks_insert env volume_name,
      record_call (DisksInsert (conf_project cfg) (conf_zone cfg) volume_name size_in_Gb) w)"

definition addDrive :: "node \<Rightarrow> int \<Rightarrow> world \<Rightarrow> world" where
  "addDrive nd diskNumber w = w\<lparr>san_drives := san_drives w @ [(node_name nd, diskNumber)]\<rparr>"

definition deleteDrive :: "node \<Rightarrow> int \<Rightarrow> world \<Rightarrow> world" where
  "deleteDrive nd diskNumber w =
     w\<lparr>san_drives := filter (\<lambda>d. d \<noteq> (node_name nd, diskNumber)) (san_drives w)\<rparr>"

text \<open>
  The loop over the added disks, already in the order of the sorted keys. After the
  create call the source passes \<open>None\<close> as the response to \<open>_blocking_call\<close>; there is no
  operation to poll, so no answers either.
\<close>

fun added_disk_loop ::
  "'k env \<Rightarrow> config \<Rightarrow> node_request \<Rightarrow> ('k \<times> disk) list \<Rightarrow> persistent_disk list \<Rightarrow> world
     \<Rightarrow> ((error + persistent_disk list) \<times> world) option" where
  "added_disk_loop env cfg node_request [] persistent_disks w = Some (Inr persistent_disks, w)"
| "added_disk_loop env cfg node_request ((disk_index, dsk) # rest) persistent_disks w =
     (if disk_adapter dsk \<noteq> ''default''
      then added_disk_loop env cfg node_request rest persistent_disks w
      else
        (case nr_instance_name node_request of
           None \<Rightarrow> Some (Inl (KeyError ''instance_name''), w)
         | Some instance_name \<Rightarrow>
             if env_disk_index_int env disk_index > 1 then
               (case create_persistent_disk env cfg
                       (get_disk_volume_name instance_name (env_disk_index_int env disk_index))
                       (real_of_int (disk_size dsk) / 1000) w of
                  (Some e, w1) \<Rightarrow> Some (Inl e, w1)
                | (None, w1) \<Rightarrow>
                    (case run_outcome
                            (blocking_call (conf_project cfg) None (conf_sleeptime cfg) []) of
                       None \<Rightarrow> None
                     | Some (Inl e) \<Rightarrow>
                         Some (Inl e,
                           absorb_run
                             (blocking_call (conf_project cfg) None (conf_sleeptime cfg) []) w1)
                     | Some (Inr None) \<Rightarrow>
                         Some (Inl (TypeError NoneType_not_subscriptable),
                           absorb_run
                             (blocking_call (conf_project cfg) None (conf_sleeptime cfg) []) w1)
                     | Some (Inr (Some result)) \<Rightarrow>
                         (case op_targetLink result of
                            None \<Rightarrow>
                              Some (Inl (KeyError ''targetLink''),
                                absorb_run
                                  (blocking_call (conf_project cfg) None (conf_sleeptime cfg) [])
                                  w1)
                          | Some link \<Rightarrow>
                              added_disk_loop env cfg node_request rest
                                (persistent_disks @
                                   [\<lparr>pd_name = Some (get_disk_volume_name instance_name
                                                        (env_disk_index_int env disk_index)),
                                     pd_sizeGb = real_of_int (disk_size dsk) / 1000,
                                     pd_link = Some link\<rparr>])
                                (addDrive (nr_node node_request)
                                   (env_disk_index_int env disk_index)
                                   (absorb_run
                                      (blocking_call (conf_project cfg) None
                                         (conf_sleeptime cfg) []) w1)))))
             else
               added_disk_loop env cfg node_request rest
                 (persistent_disks @
                    [\<lparr>pd_name = Some (get_disk_volume_name instance_name
                                         (env_disk_index_int env disk_index)),
                      pd_sizeGb = real_of_int (disk_size dsk) / 1000,
                      pd_link = None\<rparr>])
                 (addDrive (nr_node node_request) (env_disk_index_int env disk_index) w)))"

definition process_added_disk_changes ::
  "('k::linorder) env \<Rightarrow> config \<Rightarrow> node_request \<Rightarrow> world
     \<Rightarrow> ((error + persistent_disk list) \<times> world) option" where
  "process_added_disk_changes env cfg node_request w =
     added_disk_loop env cfg node_request
       (sort_key fst (env_added_disks env (node_name (nr_node node_request)))) [] w"


definition new_calls :: "world \<Rightarrow> world \<Rightarrow> cloud_call list" where
  "new_calls w w' = drop (length (cloud_calls w)) (cloud_calls w')"

section \<open>Launching the instances\<close>

text \<open>
  The image lookups. The handler of an \<open>HttpError\<close> calls \<open>self.__process_exception\<close>,
  a method that the class does not define, so what leaves the handler is the
  \<open>AttributeError\<close> of that call and not the \<open>OperationFailed\<close> of the last line; any
  other exception passes through.
\<close>

definition no_process_exception :: string where
  "no_process_exception =
     [CHR 0x27] @ ''Gce'' @ [CHR 0x27] @ '' object has no attribute ''
       @ [CHR 0x27] @ ''_Gce__process_exception'' @ [CHR 0x27]"

definition gce_get_image_by_name ::
  "'k env \<Rightarrow> string option \<Rightarrow> string \<Rightarrow> world \<Rightarrow> (error + string) \<times> world" where
  "gce_get_image_by_name env image_project image_name w =
     (case env_images_get env image_project image_name of
        Inr selfLink \<Rightarrow> (Inr selfLink, record_call (ImagesGet image_project image_name) w)
      | Inl (HttpError n) \<Rightarrow>
          (Inl (AttributeError no_process_exception),
           record_call (ImagesGet image_project image_name) w)
      | Inl e \<Rightarrow> (Inl e, record_call (ImagesGet image_project image_name) w))"

definition gce_get_image_family_url ::
  "'k env \<Rightarrow> string option \<Rightarrow> string \<Rightarrow> world \<Rightarrow> (error + string) \<times> world" where
  "gce_get_image_family_url env image_family_project image_family w =
     (case env_images_getFromFamily env image_family_project image_family of
        Inr selfLink \<Rightarrow>
          (Inr selfLink, record_call (ImagesGetFromFamily image_family_project image_family) w)
      | Inl (HttpError n) \<Rightarrow>
          (Inl (AttributeError no_process_exception),
           record_call (ImagesGetFromFamily image_family_project image_family) w)
      | Inl e \<Rightarrow>
          (Inl e, record_call (ImagesGetFromFamily image_family_project image_family) w))"

text \<open>A selector \<open>project/name\<close> names the project; a bare name leaves it \<open>None\<close>.\<close>

definition split_image_project :: "string \<Rightarrow> string option \<times> string" where
  "split_image_project s =
     (if CHR ''/'' \<in> set s
      then (Some (takeWhile (\<lambda>x. x \<noteq> CHR ''/'') s), tl (dropWhile (\<lambda>x. x \<noteq> CHR ''/'') s))
      else (None, s))"

definition resolve_image :: "'k env \<Rightarrow> config \<Rightarrow> world \<Rightarrow> (error + string) \<times> world" where
  "resolve_image env cfg w =
     (case conf_image cfg of
        Image s \<Rightarrow>
          gce_get_image_by_name env (fst (split_image_project s)) (snd (split_image_project s)) w
      | Image_family s \<Rightarrow>
          gce_get_image_family_url env (fst (split_image_project s)) (snd (split_image_project s)) w
      | Image_url u \<Rightarrow> (Inr u, w))"

text \<open>
  \<open>__get_common_launch_args\<close>: the image first, then the network interfaces, then the
  accelerators. \<open>extra_args\<close> is the list of keys of the extra-argument dictionary.
\<close>

definition get_common_launch_args ::
  "'k env \<Rightarrow> config \<Rightarrow> string list option \<Rightarrow> world \<Rightarrow> (error + common_launch_args) \<times> world" where
  "get_common_launch_args env cfg extra_args w =
     (case resolve_image env cfg w of
        (Inl e, w1) \<Rightarrow> (Inl e, w1)
      | (Inr image_url, w1) \<Rightarrow>
          (case get_network_interface_definitions (conf_project cfg) (conf_region cfg)
                  (conf_networks cfg) of
             Inl e \<Rightarrow> (Inl e, w1)
           | Inr network_interfaces \<Rightarrow>
               (case conf_accelerators cfg of
                  None \<Rightarrow>
                    (Inr \<lparr>cla_image_url = image_url,
                          cla_network_interfaces = network_interfaces,
                          cla_preemptible =
                            (case extra_args of None \<Rightarrow> False
                             | Some ks \<Rightarrow> ''preemptible'' \<in> set ks),
                          cla_accelerators = None\<rparr>, w1)
                | Some a \<Rightarrow>
                    (case parse_accelerator a of
                       Inl e \<Rightarrow> (Inl e, w1)
                     | Inr accel \<Rightarrow>
                         (Inr \<lparr>cla_image_url = image_url,
                               cla_network_interfaces = network_interfaces,
                               cla_preemptible =
                                 (case extra_args of None \<Rightarrow> False
                                  | Some ks \<Rightarrow> ''preemptible'' \<in> set ks),
                               cla_accelerators = Some accel\<rparr>, w1)))))"

definition get_disk_type_resource_url :: "string \<Rightarrow> string \<Rightarrow> bool \<Rightarrow> string" where
  "get_disk_type_resource_url project zone ssd =
     GCE_URL @ project @ ''/zones/'' @ zone @ ''/diskTypes/''
       @ (if ssd then ''pd-ssd'' else ''pd-standard'')"

text \<open>The data disks of the instance: every entry after the first must hold a link.\<close>

fun data_disks :: "persistent_disk list \<Rightarrow> error + instance_disk list" where
  "data_disks [] = Inr []"
| "data_disks (d # ds) =
     (case pd_link d of
        None \<Rightarrow> Inl (KeyError ''link'')
      | Some l \<Rightarrow>
          (case data_disks ds of
             Inl e \<Rightarrow> Inl e
           | Inr r \<Rightarrow>
               Inr (\<lparr>idisk_boot = False, idisk_sourceImage = None, idisk_diskSizeGb = None,
                     idisk_diskType = None, idisk_source = Some l\<rparr> # r)))"

definition full_accelerator :: "config \<Rightarrow> accelerator \<Rightarrow> accelerator" where
  "full_accelerator cfg a =
     a\<lparr>acceleratorType :=
         ''/projects/'' @ conf_project cfg @ ''/zones/'' @ conf_zone cfg
           @ ''/acceleratorTypes/'' @ acceleratorType a\<rparr>"

definition has_accelerators :: "common_launch_args \<Rightarrow> bool" where
  "has_accelerators cla =
     (case cla_accelerators cla of None \<Rightarrow> False | Some accel \<Rightarrow> accel \<noteq> [])"

definition launch_instance ::
  "'k env \<Rightarrow> config \<Rightarrow> string \<Rightarrow> (string \<times> string) list \<Rightarrow> common_launch_args
     \<Rightarrow> persistent_disk list \<Rightarrow> world \<Rightarrow> (error + operation) \<times> world" where
  "launch_instance env cfg instance_name metadata cla persistent_disks w =
     (case persistent_disks of
        [] \<Rightarrow> (Inl (IndexError ''list index out of range''), w)
      | first # others \<Rightarrow>
          (case data_disks others of
             Inl e \<Rightarrow> (Inl e, w)
           | Inr dds \<Rightarrow>
               (env_instances_insert env instance_name,
                record_call
                  (InstancesInsert (conf_project cfg) (conf_zone cfg)
                     \<lparr>ls_name = instance_name,
                      ls_tags = ''tortuga'' # conf_tags cfg,
                      ls_machineType =
                        GCE_URL @ conf_project cfg @ ''/zones/'' @ conf_zone cfg
                          @ ''/machineTypes/'' @ conf_type cfg,
                      ls_disks =
                        \<lparr>idisk_boot = True,
                         idisk_sourceImage = Some (cla_image_url cla),
                         idisk_diskSizeGb = Some (pd_sizeGb first),
                         idisk_diskType =
                           Some (get_disk_type_resource_url (conf_project cfg) (conf_zone cfg)
                                   (conf_ssd cfg)),
                         idisk_source = None\<rparr> # dds,
                      ls_networkInterfaces = cla_network_interfaces cla,
                      ls_preemptible = (if cla_preemptible cla then Some True else None),
                      ls_onHostMaintenance =
                        (if has_accelerators cla then Some ''TERMINATE'' else None),
                      ls_guestAccelerators =
                        (if has_accelerators cla
                         then map_option (map (full_accelerator cfg)) (cla_accelerators cla)
                         else None),
                      ls_metadata = metadata\<rparr>) w)))"

text \<open>
  The loop of \<open>__launch_instances\<close> over the requests. An exception leaves the loop at
  once; the requests are dictionaries changed in place, so what was set before the
  exception stays set. The result is the exception, if any, the requests and the state.
\<close>

fun launch_loop ::
  "('k::linorder) env \<Rightarrow> config \<Rightarrow> common_launch_args \<Rightarrow> node_request list \<Rightarrow> world
     \<Rightarrow> (error option \<times> node_request list \<times> world) option" where
  "launch_loop env cfg cla [] w = Some (None, [], w)"
| "launch_loop env cfg cla (node_request # rest) w =
     (case env_instance_metadata env (node_name (nr_node node_request)) of
        Inl e \<Rightarrow>
          Some (Some e,
            node_request\<lparr>nr_instance_name :=
              Some (get_instance_name_from_host_name (node_name (nr_node node_request)))\<rparr>
            # rest, w)
      | Inr metadata \<Rightarrow>
          (case process_added_disk_changes env cfg
                  (node_request\<lparr>nr_instance_name :=
                     Some (get_instance_name_from_host_name (node_name (nr_node node_request)))\<rparr>)
                  w of
             None \<Rightarrow> None
           | Some (Inl e, w1) \<Rightarrow>
               Some (Some e,
                 node_request\<lparr>nr_instance_name :=
                   Some (get_instance_name_from_host_name (node_name (nr_node node_request)))\<rparr>
                 # rest, w1)
           | Some (Inr persistent_disks, w1) \<Rightarrow>
               (case launch_instance env cfg
                       (get_instance_name_from_host_name (node_name (nr_node node_request)))
                       metadata cla
                       (if persistent_disks = []
                        then [\<lparr>pd_name = None, pd_sizeGb = real_of_int (conf_disksize cfg),
                               pd_link = None\<rparr>]
                        else persistent_disks) w1 of
                  (Inl e, w2) \<Rightarrow>
                    Some (Some e,
                      node_request\<lparr>nr_instance_name :=
                        Some (get_instance_name_from_host_name
                                (node_name (nr_node node_request)))\<rparr>
                      # rest, w2)
                | (Inr response, w2) \<Rightarrow>
                    (case op_zone response of
                       None \<Rightarrow>
                         Some (Some (KeyError ''zone''),
                           node_request\<lparr>nr_instance_name :=
                             Some (get_instance_name_from_host_name
                                     (node_name (nr_node node_request))),
                             nr_response := Some response\<rparr>
                           # rest, w2)
                     | Some z \<Rightarrow>
                         (case launch_loop env cfg cla rest w2 of
                            None \<Rightarrow> None
                          | Some (err, rest', w3) \<Rightarrow>
                              Some (err,
                                node_request\<lparr>nr_instance_name :=
                                  Some (get_instance_name_from_host_name
                                          (node_name (nr_node node_request))),
                                  nr_response := Some response,
                                  nr_node := (nr_node node_request)\<lparr>node_instance :=
                                    Some \<lparr>im_instance =
                                            get_instance_name_from_host_name
                                              (node_name (nr_node node_request)),
                                          im_instance_metadata =
                                            (''zone'', last (split_on CHR ''/'' z))
                                            # (if cla_preemptible cla
                                               then [(''gce:scheduling'', ''preemptible'')]
                                               else [])\<rparr>\<rparr>\<rparr>
                                # rest', w3))))))"

section \<open>Waiting for the instances\<close>

definition mark_node_request_failed :: "node_request \<Rightarrow> string option \<Rightarrow> node_request" where
  "mark_node_request_failed node_request message =
     node_request\<lparr>nr_status := Status_error,
       nr_message :=
         (case message of
            None \<Rightarrow> nr_message node_request
          | Some m \<Rightarrow> if m = [] then nr_message node_request else Some m)\<rparr>"

definition NoneType_not_iterable :: string where
  "NoneType_not_iterable =
     ''argument of type '' @ [CHR 0x27] @ ''NoneType'' @ [CHR 0x27] @ '' is not iterable''"

text \<open>
  \<open>gevent_wait_for_instance\<close> polls the create operation of the request to its end and
  sets the status from the presence of the \<open>error\<close> field. \<open>None\<close> is a poll that never
  ends; an exception leaves the request as it was.
\<close>

definition gevent_wait_for_instance ::
  "'k env \<Rightarrow> config \<Rightarrow> node_request \<Rightarrow> world
     \<Rightarrow> ((error + bool) \<times> node_request \<times> world) option" where
  "gevent_wait_for_instance env cfg pending_node_request w =
     (case nr_response pending_node_request of
        None \<Rightarrow> Some (Inl (KeyError ''response''), pending_node_request, w)
      | Some response \<Rightarrow>
          (case run_outcome
                  (gevent_blocking_call (conf_project cfg) (Some response) (conf_sleeptime cfg)
                     (env_random env (op_name response))
                     (env_operation_answers env (op_name response))) of
             None \<Rightarrow> None
           | Some (Inl e) \<Rightarrow>
               Some (Inl e, pending_node_request,
                 absorb_run
                   (gevent_blocking_call (conf_project cfg) (Some response) (conf_sleeptime cfg)
                      (env_random env (op_name response))
                      (env_operation_answers env (op_name response))) w)
           | Some (Inr None) \<Rightarrow>
               Some (Inl (TypeError NoneType_not_iterable), pending_node_request,
                 absorb_run
                   (gevent_blocking_call (conf_project cfg) (Some response) (conf_sleeptime cfg)
                      (env_random env (op_name response))
                      (env_operation_answers env (op_name response))) w)
           | Some (Inr (Some result)) \<Rightarrow>
               Some (Inr (op_error result = None),
                 pending_node_request\<lparr>
                   nr_status := (if op_error result \<noteq> None then Status_error else Status_success),
                   nr_result := Some result\<rparr>,
                 absorb_run
                   (gevent_blocking_call (conf_project cfg) (Some response) (conf_sleeptime cfg)
                      (env_random env (op_name response))
                      (env_operation_answers env (op_name response))) w)))"

text \<open>
  \<open>gce_get_vm\<close> answers \<open>None\<close> on any \<open>HttpError\<close> and logs it unless it is a 404; other
  exceptions pass through.
\<close>

definition gce_get_vm ::
  "'k env \<Rightarrow> config \<Rightarrow> string \<Rightarrow> world \<Rightarrow> (error + vm_instance option) \<times> world" where
  "gce_get_vm env cfg instance_name w =
     (case env_instances_get env instance_name of
        Inr vm \<Rightarrow>
          (Inr (Some vm),
           record_call (InstancesGet (conf_project cfg) (conf_zone cfg) instance_name) w)
      | Inl (HttpError n) \<Rightarrow>
          (Inr None,
           (if n \<noteq> 404
            then record_log (Error_unable_to_get_instance instance_name)
                   (record_call (InstancesGet (conf_project cfg) (conf_zone cfg) instance_name) w)
            else record_call (InstancesGet (conf_project cfg) (conf_zone cfg) instance_name) w))
      | Inl e \<Rightarrow>
          (Inl e, record_call (InstancesGet (conf_project cfg) (conf_zone cfg) instance_name) w))"

text \<open>
  \<open>__get_instance_internal_ip\<close> returns the address of the first interface, or \<open>None\<close>
  when the list of interfaces is empty; a missing key raises \<open>KeyError\<close>.
\<close>

definition get_instance_internal_ip :: "vm_instance \<Rightarrow> error + string option" where
  "get_instance_internal_ip inst =
     (case vm_networkInterfaces inst of
        None \<Rightarrow> Inl (KeyError ''networkInterfaces'')
      | Some [] \<Rightarrow> Inr None
      | Some (network_interface # _) \<Rightarrow>
          (case vni_networkIP network_interface of
             None \<Rightarrow> Inl (KeyError ''networkIP'')
           | Some ip \<Rightarrow> Inr (Some ip)))"

definition set_node_state :: "node_state \<Rightarrow> node_request \<Rightarrow> node_request" where
  "set_node_state s node_request =
     node_request\<lparr>nr_node := (nr_node node_request)\<lparr>node_state := s\<rparr>\<rparr>"

definition append_nic :: "string \<Rightarrow> node_request \<Rightarrow> node_request" where
  "append_nic internal_ip node_request =
     node_request\<lparr>nr_node := (nr_node node_request)\<lparr>node_nics :=
       node_nics (nr_node node_request) @ [\<lparr>nic_ip = internal_ip, nic_boot = True\<rparr>]\<rparr>\<rparr>"

text \<open>
  \<open>__instance_post_launch\<close>: the exception it raises, if any, with the request and the
  state as they are at that point. The two early returns raise nothing.
\<close>

definition instance_post_launch ::
  "'k env \<Rightarrow> config \<Rightarrow> node_request \<Rightarrow> world \<Rightarrow> error option \<times> node_request \<times> world" where
  "instance_post_launch env cfg node_request w =
     (case nr_instance_name node_request of
        None \<Rightarrow> (Some (KeyError ''instance_name''), node_request, w)
      | Some instance_name \<Rightarrow>
          (case gce_get_vm env cfg instance_name w of
             (Inl e, w1) \<Rightarrow> (Some e, node_request, w1)
           | (Inr None, w1) \<Rightarrow>
               (None, node_request, record_log (Error_vm_went_away instance_name) w1)
           | (Inr (Some vm_inst), w1) \<Rightarrow>
               (case get_instance_internal_ip vm_inst of
                  Inl e \<Rightarrow> (Some e, set_node_state NODE_STATE_INSTALLED node_request, w1)
                | Inr None \<Rightarrow>
                    (None, set_node_state NODE_STATE_INSTALLED node_request,
                     record_log (Error_vm_no_ip_address instance_name) w1)
                | Inr (Some internal_ip) \<Rightarrow>
                    (case env_pre_add_host env (node_name (nr_node node_request)) internal_ip of
                       Some e \<Rightarrow>
                         (Some e,
                          append_nic internal_ip
                            (set_node_state NODE_STATE_INSTALLED node_request), w1)
                     | None \<Rightarrow>
                         (None,
                          append_nic internal_ip
                            (set_node_state NODE_STATE_INSTALLED node_request),
                          w1\<lparr>registered_hosts := registered_hosts w1
                               @ [(node_name (nr_node node_request), internal_ip)]\<rparr>)))))"

fun get_project_and_zone_metadata_loop ::
  "(string \<times> string) list \<Rightarrow> string option \<Rightarrow> string option \<Rightarrow> string option \<times> string option"
where
  "get_project_and_zone_metadata_loop [] project zone = (project, zone)"
| "get_project_and_zone_metadata_loop ((k, v) # mds) project zone =
     (if k = ''project'' then get_project_and_zone_metadata_loop mds (Some v) zone
      else if k = ''zone'' then get_project_and_zone_metadata_loop mds project (Some v)
      else get_project_and_zone_metadata_loop mds project zone)"

text \<open>
  \<open>__deleteInstance\<close>: a 404 on the delete call is logged and ignored, another
  \<open>HttpError\<close> becomes \<open>CommandFailed\<close>.
\<close>

definition deleteInstance ::
  "'k env \<Rightarrow> config \<Rightarrow> node \<Rightarrow> world \<Rightarrow> error option \<times> world" where
  "deleteInstance env cfg nd w =
     (case node_instance nd of
        None \<Rightarrow> (Some (AttributeError ''instance_metadata''), w)
      | Some im \<Rightarrow>
          (case get_project_and_zone_metadata_loop (im_instance_metadata im) None None of
             (project, zone) \<Rightarrow>
               (case env_instances_delete env (get_instance_name_from_host_name (node_name nd)) of
                  None \<Rightarrow>
                    (None,
                     record_call
                       (InstancesDelete (case project of None \<Rightarrow> conf_project cfg | Some p \<Rightarrow> p)
                          (case zone of None \<Rightarrow> conf_zone cfg | Some z \<Rightarrow> z)
                          (get_instance_name_from_host_name (node_name nd))) w)
                | Some (HttpError n) \<Rightarrow>
                    (if n = 404
                     then (None,
                       record_log
                         (Warning_instance_not_found
                            (get_instance_name_from_host_name (node_name nd)))
                         (record_call
                            (InstancesDelete
                               (case project of None \<Rightarrow> conf_project cfg | Some p \<Rightarrow> p)
                               (case zone of None \<Rightarrow> conf_zone cfg | Some z \<Rightarrow> z)
                               (get_instance_name_from_host_name (node_name nd))) w))
                     else (Some (CommandFailed
                              (''Error deleting Compute Engine instance [''
                               @ get_instance_name_from_host_name (node_name nd) @ '']'')),
                       record_call
                         (InstancesDelete
                            (case project of None \<Rightarrow> conf_project cfg | Some p \<Rightarrow> p)
                            (case zone of None \<Rightarrow> conf_zone cfg | Some z \<Rightarrow> z)
                            (get_instance_name_from_host_name (node_name nd))) w))
                | Some e \<Rightarrow>
                    (Some e,
                     record_call
                       (InstancesDelete (case project of None \<Rightarrow> conf_project cfg | Some p \<Rightarrow> p)
                          (case zone of None \<Rightarrow> conf_zone cfg | Some z \<Rightarrow> z)
                          (get_instance_name_from_host_name (node_name nd))) w))))"

fun join_comma :: "string list \<Rightarrow> string" where
  "join_comma [] = []"
| "join_comma [s] = s"
| "join_comma (s # t # ss) = s @ '', '' @ join_comma (t # ss)"

definition error_logmsg :: "(string \<times> string) list \<Rightarrow> string" where
  "error_logmsg errors = join_comma (map (\<lambda>(m, c). m @ '' ('' @ c @ '')'') errors)"

definition post_launch_failure_message :: "string \<Rightarrow> error \<Rightarrow> string" where
  "post_launch_failure_message instance_name exc =
     ''Internal error: post-launch action for VM ['' @ instance_name @ '']''
       @ '' (exception '' @ error_class_name exc @ '': '' @ error_str exc @ '')''"

text \<open>
  \<open>__wait_for_instance\<close>, the work of one worker on one request. Every exception is
  caught: the inner handler marks the request failed and deletes the instance, the outer
  one marks it failed with the text of the exception. \<open>None\<close> is a poll that never ends.
\<close>

definition wait_for_instance ::
  "'k env \<Rightarrow> config \<Rightarrow> node_request \<Rightarrow> world \<Rightarrow> (node_request \<times> world) option" where
  "wait_for_instance env cfg pending_node_request w =
     (case gevent_wait_for_instance env cfg pending_node_request w of
        None \<Rightarrow> None
      | Some (Inl exc, r1, w1) \<Rightarrow>
          Some (mark_node_request_failed r1 (Some (error_str exc)),
                record_log (Exception_blocking_call_failed
                              (case nr_instance_name r1 of None \<Rightarrow> [] | Some i \<Rightarrow> i)) w1)
      | Some (Inr True, r1, w1) \<Rightarrow>
          (case instance_post_launch env cfg r1 w1 of
             (None, r2, w2) \<Rightarrow> Some (r2, w2)
           | (Some exc, r2, w2) \<Rightarrow>
               (case deleteInstance env cfg
                       (nr_node (mark_node_request_failed r2
                          (Some (post_launch_failure_message
                                   (case nr_instance_name r2 of None \<Rightarrow> [] | Some i \<Rightarrow> i) exc))))
                       (record_log (Error_post_launch
                                      (case nr_instance_name r2 of None \<Rightarrow> [] | Some i \<Rightarrow> i)) w2) of
                  (None, w3) \<Rightarrow>
                    Some (mark_node_request_failed r2
                            (Some (post_launch_failure_message
                                     (case nr_instance_name r2 of None \<Rightarrow> [] | Some i \<Rightarrow> i) exc)),
                          w3)
                | (Some exc', w3) \<Rightarrow>
                    Some (mark_node_request_failed
                            (mark_node_request_failed r2
                               (Some (post_launch_failure_message
                                        (case nr_instance_name r2 of None \<Rightarrow> [] | Some i \<Rightarrow> i)
                                        exc)))
                            (Some (error_str exc')),
                          record_log (Exception_blocking_call_failed
                                        (case nr_instance_name r2 of None \<Rightarrow> [] | Some i \<Rightarrow> i))
                            w3)))
      | Some (Inr False, r1, w1) \<Rightarrow>
          (case nr_result r1 of
             None \<Rightarrow>
               Some (mark_node_request_failed r1 (Some (error_str (KeyError ''result''))),
                     record_log (Exception_blocking_call_failed
                                   (case nr_instance_name r1 of None \<Rightarrow> [] | Some i \<Rightarrow> i)) w1)
           | Some result \<Rightarrow>
               (case op_error result of
                  None \<Rightarrow>
                    Some (mark_node_request_failed r1 (Some (error_str (KeyError ''error''))),
                          record_log (Exception_blocking_call_failed
                                        (case nr_instance_name r1 of None \<Rightarrow> [] | Some i \<Rightarrow> i))
                            w1)
                | Some errors \<Rightarrow>
                    Some (mark_node_request_failed r1 (Some (error_logmsg errors)),
                          record_log (Error_gce (error_logmsg errors)) w1))))"

text \<open>
  The pool of \<open>min 10 n\<close> workers takes the requests that hold a response from a FIFO
  queue; a worker handles one request at a time and touches only that request, its node
  and its instance. The requests are run here one after the other in queue order.
\<close>

definition worker_thread_count :: "nat \<Rightarrow> nat" where
  "worker_thread_count launch_requests = (if launch_requests > 10 then 10 else launch_requests)"

fun wait_workers ::
  "'k env \<Rightarrow> config \<Rightarrow> node_request list \<Rightarrow> world \<Rightarrow> (node_request list \<times> world) option" where
  "wait_workers env cfg [] w = Some ([], w)"
| "wait_workers env cfg (node_request # rest) w =
     (case nr_response node_request of
        None \<Rightarrow>
          (case wait_workers env cfg rest w of
             None \<Rightarrow> None
           | Some (rest', w') \<Rightarrow> Some (node_request # rest', w'))
      | Some _ \<Rightarrow>
          (case wait_for_instance env cfg node_request w of
             None \<Rightarrow> None
           | Some (r', w1) \<Rightarrow>
               (case wait_workers env cfg rest w1 of
                  None \<Rightarrow> None
                | Some (rest', w2) \<Rightarrow> Some (r' # rest', w2))))"

text \<open>
  After the queue is drained, the first request in error status ends
  \<open>__wait_for_instances\<close> with \<open>CommandFailed\<close>; logging its \<open>message\<close> raises \<open>KeyError\<close>
  when no message was set.
\<close>

fun raise_if_any_failed :: "node_request list \<Rightarrow> world \<Rightarrow> error option \<times> world" where
  "raise_if_any_failed [] w = (None, w)"
| "raise_if_any_failed (node_request # rest) w =
     (if nr_status node_request = Status_error then
        (case nr_message node_request of
           None \<Rightarrow> (Some (KeyError ''message''), w)
         | Some m \<Rightarrow>
             (Some (CommandFailed ''Fatal error launching one or more instances''),
              record_log (Error_message m) w))
      else raise_if_any_failed rest w)"

definition wait_for_instances ::
  "'k env \<Rightarrow> config \<Rightarrow> node_request list \<Rightarrow> world
     \<Rightarrow> (error option \<times> node_request list \<times> world) option" where
  "wait_for_instances env cfg node_request_queue w =
     (case wait_workers env cfg node_request_queue w of
        None \<Rightarrow> None
      | Some (requests, w1) \<Rightarrow>
          Some (fst (raise_if_any_failed requests w1), requests,
                snd (raise_if_any_failed requests w1)))"

definition launch_instances ::
  "('k::linorder) env \<Rightarrow> config \<Rightarrow> string list option \<Rightarrow> node_request list \<Rightarrow> world
     \<Rightarrow> (error option \<times> node_request list \<times> world) option" where
  "launch_instances env cfg extra_args node_requests w =
     (case get_common_launch_args env cfg extra_args w of
        (Inl e, w1) \<Rightarrow> Some (Some e, node_requests, w1)
      | (Inr cla, w1) \<Rightarrow>
          (case launch_loop env cfg cla node_requests w1 of
             None \<Rightarrow> None
           | Some (Some e, requests, w2) \<Rightarrow> Some (Some e, requests, w2)
           | Some (None, requests, w2) \<Rightarrow> wait_for_instances env cfg requests w2))"

section \<open>Reconciliation\<close>

fun deleted_disk_loop :: "'k env \<Rightarrow> node \<Rightarrow> ('k \<times> disk) list \<Rightarrow> world \<Rightarrow> world" where
  "deleted_disk_loop env nd [] w = w"
| "deleted_disk_loop env nd ((disk_index, dsk) # rest) w =
     (if disk_adapter dsk \<noteq> ''default'' then deleted_disk_loop env nd rest w
      else deleted_disk_loop env nd rest (deleteDrive nd (env_disk_index_int env disk_index) w))"

definition process_deleted_disk_changes :: "'k env \<Rightarrow> node \<Rightarrow> world \<Rightarrow> world" where
  "process_deleted_disk_changes env nd w =
     deleted_disk_loop env nd (env_removed_disks env (node_name nd)) w"

definition clear_session_node :: "node \<Rightarrow> world \<Rightarrow> world" where
  "clear_session_node nd w =
     w\<lparr>session_nodes := filter (\<lambda>n. n \<noteq> node_name nd) (session_nodes w)\<rparr>"

definition node_cleanup :: "'k env \<Rightarrow> node \<Rightarrow> world \<Rightarrow> world" where
  "node_cleanup env nd w = process_deleted_disk_changes env nd (clear_session_node nd w)"

definition db_delete :: "node \<Rightarrow> world \<Rightarrow> world" where
  "db_delete nd w = w\<lparr>db_nodes := filter (\<lambda>n. n \<noteq> node_name nd) (db_nodes w)\<rparr>"

definition fire_provisioned_event :: "node \<Rightarrow> world \<Rightarrow> world" where
  "fire_provisioned_event nd w = w\<lparr>provisioned_events := provisioned_events w @ [node_name nd]\<rparr>"

text \<open>
  The loop of \<open>__post_launch_action\<close>: \<open>result\<close> collects the nodes of the requests in
  success status, \<open>completed\<close> counts them. No gateway call is made here.
\<close>

fun post_launch_loop ::
  "'k env \<Rightarrow> node_request list \<Rightarrow> node list \<Rightarrow> nat \<Rightarrow> world \<Rightarrow> node list \<times> nat \<times> world" where
  "post_launch_loop env [] result completed w = (result, completed, w)"
| "post_launch_loop env (node_request # rest) result completed w =
     (if nr_status node_request \<noteq> Status_success then
        post_launch_loop env rest result completed
          (db_delete (nr_node node_request)
             (node_cleanup env (nr_node node_request)
                (record_log
                   (case nr_instance_name node_request of
                      Some i \<Rightarrow> Error_cleaning_up_failed_instance i
                                  (node_name (nr_node node_request))
                    | None \<Rightarrow> Error_cleaning_up_node (node_name (nr_node node_request))) w)))
      else
        post_launch_loop env rest
          (result @ [(nr_node node_request)\<lparr>node_state := NODE_STATE_PROVISIONED\<rparr>])
          (completed + 1)
          (fire_provisioned_event (nr_node node_request) w))"

definition post_launch_action :: "'k env \<Rightarrow> node_request list \<Rightarrow> world \<Rightarrow> node list \<times> world" where
  "post_launch_action env node_request_queue w =
     (case post_launch_loop env node_request_queue [] 0 w of
        (result, completed, w1) \<Rightarrow>
          (result,
           (if completed \<noteq> 0 \<and> completed < length node_request_queue
            then record_log (Warning_only_launched completed (length node_request_queue))
                   (w1\<lparr>db_commits := db_commits w1 + 1\<rparr>)
            else w1\<lparr>db_commits := db_commits w1 + 1\<rparr>)))"

section \<open>The batch call\<close>

definition init_new_node :: "string \<Rightarrow> node" where
  "init_new_node nm =
     \<lparr>node_name = nm, node_state = NODE_STATE_LAUNCHING, node_nics = [], node_instance = None\<rparr>"

definition build_node_request_queue :: "node list \<Rightarrow> node_request list" where
  "build_node_request_queue nodes =
     map (\<lambda>nd. \<lparr>nr_node = nd, nr_status = Status_pending, nr_message = None,
                nr_instance_name = None, nr_response = None, nr_result = None\<rparr>) nodes"

text \<open>
  \<open>__addActiveNodes\<close> for the generated node names \<open>names\<close>, one per requested node. The
  records are added and committed, the instances launched and awaited, and the
  reconciliation runs whether or not that raised; an exception is raised again after it.
\<close>

definition addActiveNodes ::
  "('k::linorder) env \<Rightarrow> config \<Rightarrow> string list option \<Rightarrow> string list \<Rightarrow> world
     \<Rightarrow> ((error + node list) \<times> world) option" where
  "addActiveNodes env cfg extra_args names w =
     (case launch_instances env cfg extra_args
             (build_node_request_queue (map init_new_node names))
             (w\<lparr>db_nodes := db_nodes w @ names, db_commits := db_commits w + 1\<rparr>) of
        None \<Rightarrow> None
      | Some (Some e, requests, w1) \<Rightarrow>
          Some (Inl e, snd (post_launch_action env requests w1))
      | Some (None, requests, w1) \<Rightarrow>
          Some (Inr (fst (post_launch_action env requests w1)),
                snd (post_launch_action env requests w1)))"

section \<open>A concrete batch, for the examples\<close>

definition empty_world :: world where
  "empty_world =
     \<lparr>cloud_calls = [], sleeps = [], db_nodes = [], db_commits = 0, san_drives = [],
      session_nodes = [], registered_hosts = [], provisioned_events = [], log = []\<rparr>"

definition example_config :: config where
  "example_config =
     \<lparr>conf_project = ''proj'', conf_zone = ''us-central1-a'', conf_region = ''us-central1'',
      conf_networks = [(''default'', None, None)],
      conf_image = Image_url ''https://www.googleapis.com/compute/v1/projects/proj/global/images/img'',
      conf_accelerators = None, conf_sleeptime = 5, conf_disksize = 10,
      conf_type = ''n1-standard-1'', conf_ssd = True, conf_tags = []\<rparr>"

text \<open>
  The operation that the backend answers to a create call, and its final descriptions:
  done without an \<open>error\<close> field, and done with one.
\<close>

definition submitted_operation :: "string \<Rightarrow> operation" where
  "submitted_operation nm =
     \<lparr>op_name = nm, op_status = ''RUNNING'',
      op_zone = Some ''projects/proj/zones/us-central1-a'', op_error = None,
      op_targetLink = None\<rparr>"

definition done_operation :: "string \<Rightarrow> operation" where
  "done_operation nm = (submitted_operation nm)\<lparr>op_status := ''DONE''\<rparr>"

definition failed_operation :: "string \<Rightarrow> operation" where
  "failed_operation nm =
     (submitted_operation nm)\<lparr>op_status := ''DONE'',
        op_error := Some [(''Quota exceeded'', ''QUOTA_EXCEEDED'')]\<rparr>"

definition running_vm :: vm_instance where
  "running_vm = \<lparr>vm_networkInterfaces = Some [\<lparr>vni_networkIP = Some ''10.0.0.2''\<rparr>]\<rparr>"

text \<open>
  A backend on which everything succeeds: no disks to add or remove, every create call
  is accepted with an operation named \<open>op-\<close> and the instance name, every operation is
  done at the first poll, every instance is running with an address.
\<close>

definition example_env :: "int env" where
  "example_env =
     \<lparr>env_disk_index_int = (\<lambda>k. k),
      env_added_disks = (\<lambda>n. []),
      env_removed_disks = (\<lambda>n. []),
      env_disks_insert = (\<lambda>v. None),
      env_instances_insert = (\<lambda>i. Inr (submitted_operation (''op-'' @ i))),
      env_operation_answers = (\<lambda>opn. [Inr (Some (done_operation opn))]),
      env_random = (\<lambda>opn a. 0),
      env_instances_get = (\<lambda>i. Inr running_vm),
      env_instances_delete = (\<lambda>i. None),
      env_images_get = (\<lambda>p i. Inr i),
      env_images_getFromFamily = (\<lambda>p f. Inr f),
      env_instance_metadata = (\<lambda>n. Inr []),
      env_pre_add_host = (\<lambda>n ip. None)\<rparr>"

text \<open>The node \<open>compute-01\<close> is to get a data disk, number 2, of 10000 MB.\<close>

definition data_disk_env :: "int env" where
  "data_disk_env =
     example_env\<lparr>env_added_disks := (\<lambda>n.
        if n = ''compute-01''
        then [(2, \<lparr>disk_adapter = ''default'', disk_size = 10000, disk_sanVolume = ''vol''\<rparr>)]
        else [])\<rparr>"

definition pending_request :: "string \<Rightarrow> node_request" where
  "pending_request nm =
     \<lparr>nr_node = init_new_node nm, nr_status = Status_pending, nr_message = None,
      nr_instance_name = Some (get_instance_name_from_host_name nm), nr_response = None,
      nr_result = None\<rparr>"

text \<open>A node that is to get the disks 3, 1 and 2, listed in that order.\<close>

definition three_disk_env :: "int env" where
  "three_disk_env =
     example_env\<lparr>env_added_disks := (\<lambda>n.
        [(3, \<lparr>disk_adapter = ''default'', disk_size = 20000, disk_sanVolume = ''vol3''\<rparr>),
         (1, \<lparr>disk_adapter = ''default'', disk_size = 10000, disk_sanVolume = ''vol1''\<rparr>),
         (2, \<lparr>disk_adapter = ''default'', disk_size = 20000, disk_sanVolume = ''vol2''\<rparr>)])\<rparr>"

text \<open>
  A request as the launch loop leaves it: pending, with the response of the create call
  and the instance mapping on its node.
\<close>

definition submitted_request :: "string \<Rightarrow> node_request" where
  "submitted_request nm =
     (pending_request nm)\<lparr>
        nr_response := Some (submitted_operation (''op-'' @ get_instance_name_from_host_name nm)),
        nr_node := (init_new_node nm)\<lparr>node_instance :=
          Some \<lparr>im_instance = get_instance_name_from_host_name nm,
                im_instance_metadata = [(''zone'', ''us-central1-a'')]\<rparr>\<rparr>\<rparr>"

text \<open>
  Backends that differ from \<open>example_env\<close> in one answer: the running instance is
  described without any network interface; registering the host fails; the create
  operation of \<open>compute-02\<close> ends with an \<open>error\<close> field; the create call for
  \<open>compute-02\<close> is refused; the instance \<open>compute-01\<close> is gone when the hook asks for it.
\<close>

definition no_interface_env :: "int env" where
  "no_interface_env =
     example_env\<lparr>env_instances_get := (\<lambda>i. Inr \<lparr>vm_networkInterfaces = Some []\<rparr>)\<rparr>"

definition hook_fails_env :: "int env" where
  "hook_fails_env =
     example_env\<lparr>env_pre_add_host := (\<lambda>n ip. Some (OtherException ''DNS update failed''))\<rparr>"

definition one_failure_env :: "int env" where
  "one_failure_env =
     example_env\<lparr>env_operation_answers := (\<lambda>opn.
        if opn = ''op-compute-02'' then [Inr (Some (failed_operation opn))]
        else [Inr (Some (done_operation opn))])\<rparr>"

definition second_create_refused_env :: "int env" where
  "second_create_refused_env =
     example_env\<lparr>env_instances_insert := (\<lambda>i.
        if i = ''compute-02'' then Inl (HttpError 503)
        else Inr (submitted_operation (''op-'' @ i)))\<rparr>"

definition instance_gone_env :: "int env" where
  "instance_gone_env =
     example_env\<lparr>env_instances_get := (\<lambda>i.
        if i = ''compute-01'' then Inl (HttpError 404) else Inr running_vm)\<rparr>"

subsection \<open>Predicates used in the statements\<close>

text \<open>
  The moves of the status that the code makes: none, from pending to success or error,
  and from success to error.
\<close>

definition status_step :: "status \<Rightarrow> status \<Rightarrow> bool" where
  "status_step s t =
     (s = t \<or> (s = Status_pending \<and> t \<noteq> Status_pending)
      \<or> (s = Status_success \<and> t = Status_error))"

text \<open>The create and delete calls on instances of a trace, by instance name.\<close>

datatype instance_call = Create_call string | Delete_call string

fun instance_calls :: "cloud_call list \<Rightarrow> instance_call list" where
  "instance_calls [] = []"
| "instance_calls (InstancesInsert project zone spec # cs) =
     Create_call (ls_name spec) # instance_calls cs"
| "instance_calls (InstancesDelete project zone instance_name # cs) =
     Delete_call instance_name # instance_calls cs"
| "instance_calls (c # cs) = instance_calls cs"

definition is_image_lookup :: "cloud_call \<Rightarrow> bool" where
  "is_image_lookup c =
     (case c of ImagesGet p i \<Rightarrow> True | ImagesGetFromFamily p f \<Rightarrow> True | _ \<Rightarrow> False)"

definition provisioned :: "node_request \<Rightarrow> node" where
  "provisioned node_request = (nr_node node_request)\<lparr>node_state := NODE_STATE_PROVISIONED\<rparr>"

definition succeeded :: "node_request \<Rightarrow> bool" where
  "succeeded node_request = (nr_status node_request = Status_success)"

text \<open>A request that ended the wait phase in error status.\<close>

definition failed_request :: node_request where
  "failed_request = (submitted_request ''compute-02'')\<lparr>nr_status := Status_error,
      nr_message := Some ''Quota exceeded (QUOTA_EXCEEDED)''\<rparr>"

text \<open>
  An accelerator string has the right shape when every entry has exactly two parts
  around a colon, and its counts are right when the second part of every such entry is
  an integer.
\<close>

definition accelerator_shapes_ok :: "string \<Rightarrow> bool" where
  "accelerator_shapes_ok a =
     list_all (\<lambda>s. length (split_on CHR '':'' (strip s)) = 2) (split_on CHR '','' a)"

definition accelerator_counts_ok :: "string \<Rightarrow> bool" where
  "accelerator_counts_ok a =
     list_all (\<lambda>s. length (split_on CHR '':'' (strip s)) = 2 \<longrightarrow>
                 (case py_int (split_on CHR '':'' (strip s) ! 1) of
                    Inl _ \<Rightarrow> False | Inr _ \<Rightarrow> True))
       (split_on CHR '','' a)"

text \<open>A configuration with the image given by name and two networks flagged primary.\<close>

definition two_primaries_config :: config where
  "two_primaries_config =
     example_config\<lparr>conf_image := Image ''img'',
        conf_networks := [(''net-a'', None, Some ''primary''), (''net-b'', None, Some ''pri'')]\<rparr>"



section \<open>Verified properties\<close>

subsection \<open>Network interface resolution\<close>

lemma get_network_flags_loop_error:
  "get_network_flags_loop args result = Inl e \<Longrightarrow> \<exists>m. e = ConfigurationError m"
  by (induction args result rule: get_network_flags_loop.induct) (auto split: if_splits)

lemma get_network_flags_error:
  "get_network_flags a = Inl e \<Longrightarrow> \<exists>m. e = ConfigurationError m"
  by (auto simp: get_network_flags_def split: option.splits dest: get_network_flags_loop_error)

lemma get_network_interface_flags:
  "get_network_interface p r n = Inr (ni, flags) \<Longrightarrow> get_network_flags (snd (snd n)) = Inr flags"
  by (cases n) (auto simp: get_network_interface_def Let_def split: prod.splits sum.splits)

lemma get_network_interface_error:
  "get_network_interface p r n = Inl e \<Longrightarrow> get_network_flags (snd (snd n)) = Inl e"
  by (cases n) (auto simp: get_network_interface_def Let_def split: prod.splits sum.splits)

lemma get_network_interface_no_access:
  "get_network_interface p r n = Inr (ni, flags) \<Longrightarrow> ni_accessConfigs ni = None"
  by (cases n) (auto simp: get_network_interface_def Let_def split: prod.splits sum.splits)

lemma network_interface_loop_error:
  "network_interface_loop p r ns prim acc = Inl e \<Longrightarrow> \<exists>m. e = ConfigurationError m"
proof (induction ns arbitrary: prim acc)
  case Nil
  then show ?case by simp
next
  case (Cons n ns)
  then show ?case
    by (auto split: sum.splits prod.splits if_splits
        dest!: get_network_interface_error get_network_flags_error)
qed

lemma network_interface_loop_duplicate:
  "(prim \<noteq> None \<and> 1 \<le> length (filter primary_flagged ns)) \<or> 2 \<le> length (filter primary_flagged ns)
   \<Longrightarrow> \<exists>e. network_interface_loop p r ns prim acc = Inl e"
proof (induction ns arbitrary: prim acc)
  case Nil
  then show ?case by simp
next
  case (Cons n ns)
  show ?case
  proof (cases "get_network_interface p r n")
    case (Inl e)
    then show ?thesis by simp
  next
    case (Inr pr)
    obtain ni flags where pr: "pr = (ni, flags)" by (cases pr)
    have fl: "get_network_flags (snd (snd n)) = Inr flags"
      using Inr pr get_network_interface_flags by blast
    show ?thesis
    proof (cases "flags ''primary'' = Some True")
      case True
      then have pf: "primary_flagged n" using fl by (simp add: primary_flagged_def)
      show ?thesis
      proof (cases "prim = None")
        case True
        have "1 \<le> length (filter primary_flagged ns)"
          using Cons.prems pf True by auto
        then have "\<exists>e. network_interface_loop p r ns (Some n)
            (acc @ [if is_network_flag_set flags ''external'' False
                     then set_external_network_access ni else ni]) = Inl e"
          using Cons.IH by blast
        then show ?thesis using Inr pr \<open>flags ''primary'' = Some True\<close> True by simp
      next
        case False
        then show ?thesis using Inr pr True by simp
      qed
    next
      case False
      then have pf: "\<not> primary_flagged n" using fl by (simp add: primary_flagged_def)
      have "(prim \<noteq> None \<and> 1 \<le> length (filter primary_flagged ns)) \<or> 2 \<le> length (filter primary_flagged ns)"
        using Cons.prems pf by auto
      then have "\<exists>e. network_interface_loop p r ns prim
            (acc @ [if is_network_flag_set flags ''external'' False
                     then set_external_network_access ni else ni]) = Inl e"
        using Cons.IH by blast
      then show ?thesis using Inr pr False by simp
    qed
  qed
qed


lemma network_interface_loop_result:
  "network_interface_loop p r ns prim acc = Inr nis \<Longrightarrow>
     \<exists>ys. nis = acc @ ys \<and> list_all2 resolved_interface ns ys"
proof (induction ns arbitrary: prim acc)
  case Nil
  then show ?case by simp
next
  case (Cons n ns)
  from Cons.prems obtain ni flags where gi: "get_network_interface p r n = Inr (ni, flags)"
    by (auto split: sum.splits)
  define y where "y = (if is_network_flag_set flags ''external'' False
                        then set_external_network_access ni else ni)"
  from Cons.prems gi obtain prim' where
    rest: "network_interface_loop p r ns prim' (acc @ [y]) = Inr nis"
    by (auto simp: y_def split: if_splits)
  from Cons.IH [OF rest] obtain ys where ys: "nis = (acc @ [y]) @ ys" "list_all2 resolved_interface ns ys"
    by blast
  have "resolved_interface n y"
    using get_network_interface_flags [OF gi] get_network_interface_no_access [OF gi]
    by (auto simp: resolved_interface_def y_def is_network_flag_set_def
          set_external_network_access_def split: option.splits)
  with ys show ?case by auto
qed

lemma get_network_interface_accepts:
  "get_network_flags (snd (snd n)) = Inr flags \<Longrightarrow> \<exists>ni. get_network_interface p r n = Inr (ni, flags)"
proof -
  assume fl: "get_network_flags (snd (snd n)) = Inr flags"
  obtain nd sd na where n: "n = (nd, sd, na)" by (cases n)
  obtain project net where sp: "split_forward_slash_value nd p = (project, net)"
    by (cases "split_forward_slash_value nd p")
  show ?thesis using fl n sp by (simp add: get_network_interface_def Let_def)
qed

lemma network_interface_loop_accepts:
  "\<forall>n \<in> set ns. flags_valid n \<Longrightarrow> filter primary_flagged ns = [] \<Longrightarrow>
     \<exists>nis. network_interface_loop p r ns prim acc = Inr nis"
proof (induction ns arbitrary: prim acc)
  case Nil
  then show ?case by simp
next
  case (Cons n ns)
  from Cons.prems have v: "flags_valid n" and np: "\<not> primary_flagged n"
    by (auto split: if_splits)
  from v obtain flags where fl: "get_network_flags (snd (snd n)) = Inr flags"
    by (auto simp: flags_valid_def split: sum.splits)
  then obtain ni where gi: "get_network_interface p r n = Inr (ni, flags)"
    using get_network_interface_accepts by blast
  have nprim: "flags ''primary'' \<noteq> Some True"
    using np fl by (simp add: primary_flagged_def)
  have "\<forall>n \<in> set ns. flags_valid n" "filter primary_flagged ns = []"
    using Cons.prems by (auto split: if_splits)
  from Cons.IH [OF this] show ?case using gi nprim by simp
qed

lemma enable_external_network_access_accepts:
  "\<forall>n \<in> set networks. flags_valid n \<Longrightarrow>
     \<exists>res. enable_external_network_access networks nis = Inr res \<and> length res = length nis"
  by (auto simp: enable_external_network_access_def flags_valid_def
        split: list.splits prod.splits sum.splits)

lemma enable_external_network_access_error:
  "enable_external_network_access networks nis = Inl e \<Longrightarrow> \<exists>m. e = ConfigurationError m"
  by (auto simp: enable_external_network_access_def
        split: list.splits prod.splits sum.splits if_splits dest: get_network_flags_error)

lemma enable_external_network_access_multi:
  "length networks \<noteq> 1 \<Longrightarrow> enable_external_network_access networks nis = Inr nis"
  by (auto simp: enable_external_network_access_def split: list.splits prod.splits)

text \<open>
  Claim C10. Resolving a network list in which two or more entries carry the primary flag
  raises \<open>ConfigurationError\<close>; a list of entries with valid flags none of which is
  primary resolves without error, to one interface per entry.
\<close>

theorem duplicate_primary_rejected_zero_accepted:
  "(2 \<le> length (filter primary_flagged networks) \<longrightarrow>
      (\<exists>msg. get_network_interface_definitions project region networks
               = Inl (ConfigurationError msg)))
   \<and> ((\<forall>n \<in> set networks. flags_valid n) \<and> filter primary_flagged networks = [] \<longrightarrow>
      (\<exists>nis. get_network_interface_definitions project region networks = Inr nis
             \<and> length nis = length networks))"
proof (intro conjI impI)
  assume "2 \<le> length (filter primary_flagged networks)"
  then obtain e where e: "network_interface_loop project region networks None [] = Inl e"
    using network_interface_loop_duplicate by blast
  then obtain msg where "e = ConfigurationError msg"
    using network_interface_loop_error by blast
  with e show "\<exists>msg. get_network_interface_definitions project region networks
               = Inl (ConfigurationError msg)"
    by (simp add: get_network_interface_definitions_def)
next
  assume a: "(\<forall>n \<in> set networks. flags_valid n) \<and> filter primary_flagged networks = []"
  then obtain nis where l: "network_interface_loop project region networks None [] = Inr nis"
    using network_interface_loop_accepts by blast
  from network_interface_loop_result [OF l] have len: "length nis = length networks"
    by (auto dest: list_all2_lengthD)
  from a obtain res where "enable_external_network_access networks nis = Inr res"
      "length res = length nis"
    using enable_external_network_access_accepts by blast
  with l len show "\<exists>nis. get_network_interface_definitions project region networks = Inr nis
             \<and> length nis = length networks"
    by (simp add: get_network_interface_definitions_def)
qed

lemmas flag_evals = get_network_flags_def lower_def lower_char_def startswith_def
  primary_flagged_def flags_valid_def

theorem duplicate_primary_rejected_zero_accepted_witness:
  "(\<exists>msg. get_network_interface_definitions ''proj'' ''us-central1''
       [(''net-a'', None, Some ''primary''), (''net-b'', None, Some ''ext;pri'')]
     = Inl (ConfigurationError msg))
   \<and> (\<exists>nis. get_network_interface_definitions ''proj'' ''us-central1''
       [(''net-a'', None, None), (''net-b'', None, Some ''ext'')] = Inr nis \<and> length nis = 2)"
  using duplicate_primary_rejected_zero_accepted
          [of "[(''net-a'', None, Some ''primary''), (''net-b'', None, Some ''ext;pri'')]"
              "''proj''" "''us-central1''"]
        duplicate_primary_rejected_zero_accepted
          [of "[(''net-a'', None, None), (''net-b'', None, Some ''ext'')]"
              "''proj''" "''us-central1''"]
  by (simp add: flag_evals numeral_2_eq_2)


lemma single_network_loop:
  "get_network_interface p r n = Inr (ni, flags) \<Longrightarrow>
   network_interface_loop p r [n] None [] =
     Inr [if is_network_flag_set flags ''external'' False
          then set_external_network_access ni else ni]"
  by simp

text \<open>
  Claim C6, as amended. A single network named \<open>default\<close> gets external access whatever
  its flags say, \<open>noext\<close> included. A single network with another name gets external
  access unless its flags resolve \<open>external\<close> to false. With any other number of
  networks an interface has external access exactly when its own flags resolve
  \<open>external\<close> to true.
\<close>

theorem external_access_rule:
  "(get_network_flags na = Inr flags \<longrightarrow>
      (\<exists>ni. get_network_interface_definitions p r [(''default'', sd, na)] = Inr [ni]
           \<and> ni_accessConfigs ni = Some EXTERNAL_NETWORK_ACCESS_CONFIG))
   \<and> (nd \<noteq> ''default'' \<and> get_network_flags na = Inr flags \<longrightarrow>
      (\<exists>ni. get_network_interface_definitions p r [(nd, sd, na)] = Inr [ni]
           \<and> ni_accessConfigs ni =
               (if flags ''external'' = Some False then None
                else Some EXTERNAL_NETWORK_ACCESS_CONFIG)))
   \<and> (length networks \<noteq> 1 \<and> get_network_interface_definitions p r networks = Inr nis \<longrightarrow>
        list_all2 resolved_interface networks nis)"
proof (intro conjI impI)
  assume fl: "get_network_flags na = Inr flags"
  then obtain ni where gi: "get_network_interface p r (''default'', sd, na) = Inr (ni, flags)"
    using get_network_interface_accepts [of "(''default'', sd, na)" flags p r] by auto
  show "\<exists>ni. get_network_interface_definitions p r [(''default'', sd, na)] = Inr [ni]
           \<and> ni_accessConfigs ni = Some EXTERNAL_NETWORK_ACCESS_CONFIG"
    using single_network_loop [OF gi]
    by (simp add: get_network_interface_definitions_def enable_external_network_access_def
          set_external_network_access_def)
next
  assume a: "nd \<noteq> ''default'' \<and> get_network_flags na = Inr flags"
  then obtain ni where gi: "get_network_interface p r (nd, sd, na) = Inr (ni, flags)"
    using get_network_interface_accepts [of "(nd, sd, na)" flags p r] by auto
  have none: "ni_accessConfigs ni = None"
    using get_network_interface_no_access [OF gi] .
  show "\<exists>ni. get_network_interface_definitions p r [(nd, sd, na)] = Inr [ni]
           \<and> ni_accessConfigs ni =
               (if flags ''external'' = Some False then None
                else Some EXTERNAL_NETWORK_ACCESS_CONFIG)"
    using single_network_loop [OF gi] a none
    by (cases "flags ''external''")
       (auto simp: get_network_interface_definitions_def enable_external_network_access_def
          set_external_network_access_def is_network_flag_set_def)
next
  assume a: "length networks \<noteq> 1 \<and> get_network_interface_definitions p r networks = Inr nis"
  then obtain ys where l: "network_interface_loop p r networks None [] = Inr ys"
      and e: "enable_external_network_access networks ys = Inr nis"
    by (auto simp: get_network_interface_definitions_def split: sum.splits)
  from a e have "nis = ys"
    by (simp add: enable_external_network_access_multi)
  with network_interface_loop_result [OF l] show "list_all2 resolved_interface networks nis"
    by simp
qed

theorem external_access_rule_witness:
  "(\<exists>ni. get_network_interface_definitions ''proj'' ''us-central1'' [(''default'', None, None)]
          = Inr [ni] \<and> ni_accessConfigs ni = Some EXTERNAL_NETWORK_ACCESS_CONFIG)
   \<and> (\<exists>ni. get_network_interface_definitions ''proj'' ''us-central1''
             [(''net-a'', None, Some ''noext'')] = Inr [ni] \<and> ni_accessConfigs ni = None)
   \<and> list_all2 resolved_interface
        [(''net-a'', None, Some ''ext''), (''net-b'', None, Some ''noext'')]
        [\<lparr>ni_network = ''https://www.googleapis.com/compute/v1/projects/proj/global/networks/net-a'',
          ni_subnetwork = None, ni_accessConfigs = Some EXTERNAL_NETWORK_ACCESS_CONFIG\<rparr>,
         \<lparr>ni_network = ''https://www.googleapis.com/compute/v1/projects/proj/global/networks/net-b'',
          ni_subnetwork = None, ni_accessConfigs = None\<rparr>]"
  using external_access_rule
          [of None Map.empty "''proj''" "''us-central1''" None "''net-a''"
              "[(''net-a'', None, Some ''ext''), (''net-b'', None, Some ''noext'')]"
              "[\<lparr>ni_network = ''https://www.googleapis.com/compute/v1/projects/proj/global/networks/net-a'',
                 ni_subnetwork = None, ni_accessConfigs = Some EXTERNAL_NETWORK_ACCESS_CONFIG\<rparr>,
                \<lparr>ni_network = ''https://www.googleapis.com/compute/v1/projects/proj/global/networks/net-b'',
                 ni_subnetwork = None, ni_accessConfigs = None\<rparr>]"]
        external_access_rule
          [of "Some ''noext''" "[''external'' \<mapsto> False]" "''proj''" "''us-central1''" None "''net-a''" "[]" "[]"]
  by (simp add: flag_evals get_network_interface_definitions_def get_network_interface_def
        split_forward_slash_value_def GCE_URL_def is_network_flag_set_def
        enable_external_network_access_def set_external_network_access_def)

text \<open>
  Claim C6 as stated fails: \<open>noext\<close> on the single network \<open>default\<close> does not
  suppress external access, because the test for the name \<open>default\<close> comes first.
\<close>

theorem noext_on_default_network_counterexample:
  "get_network_flags (Some ''noext'') = Inr [''external'' \<mapsto> False]
   \<and> get_network_interface_definitions ''proj'' ''us-central1''
        [(''default'', None, Some ''noext'')]
     = Inr [\<lparr>ni_network =
                ''https://www.googleapis.com/compute/v1/projects/proj/global/networks/default'',
              ni_subnetwork = None,
              ni_accessConfigs = Some [\<lparr>ac_type = ''ONE_TO_ONE_NAT'', ac_name = ''External NAT''\<rparr>]\<rparr>]"
  by (simp add: flag_evals get_network_interface_definitions_def get_network_interface_def
        split_forward_slash_value_def GCE_URL_def is_network_flag_set_def
        enable_external_network_access_def set_external_network_access_def
        EXTERNAL_NETWORK_ACCESS_CONFIG_def)

subsection \<open>Backoff of the cooperative poller\<close>

lemma gevent_blocking_call_loop_done:
  "op_status response = ''DONE'' \<Longrightarrow>
   gevent_blocking_call_loop p pint rnd a answers response =
     \<lparr>run_calls = [], run_sleeps = [], run_outcome = Some (Inr (Some response))\<rparr>"
  by (cases answers) simp_all

lemma gevent_blocking_call_loop_sleeps:
  "j < length (run_sleeps (gevent_blocking_call_loop p pint rnd a answers response)) \<Longrightarrow>
   sleeptime pint (a + j) (rnd (a + j)) =
     Inr (run_sleeps (gevent_blocking_call_loop p pint rnd a answers response) ! j)"
proof (induction answers arbitrary: a response j)
  case Nil
  then show ?case by (simp split: if_splits)
next
  case (Cons answer answers)
  show ?case
  proof (cases "op_status response = ''DONE''")
    case True
    with Cons.prems show ?thesis by simp
  next
    case notdone: False
    show ?thesis
    proof (cases answer)
      case (Inl e)
      with Cons.prems notdone show ?thesis by simp
    next
      case (Inr ro)
      show ?thesis
      proof (cases ro)
        case None
        with Cons.prems notdone Inr show ?thesis by simp
      next
        case (Some r')
        show ?thesis
        proof (cases "op_status r' = ''DONE''")
          case True
          with Cons.prems notdone Inr Some show ?thesis
            by (simp add: run_step_def gevent_blocking_call_loop_done)
        next
          case False
          show ?thesis
          proof (cases "sleeptime pint a (rnd a)")
            case (Inl e)
            with Cons.prems notdone Inr Some False show ?thesis by simp
          next
            case st: (Inr t)
            let ?rest = "gevent_blocking_call_loop p pint rnd (Suc a) answers r'"
            have eq: "run_sleeps (gevent_blocking_call_loop p pint rnd a (answer # answers) response)
                      = t # run_sleeps ?rest"
              using notdone Inr Some False st by (simp add: run_step_def)
            show ?thesis
            proof (cases j)
              case 0
              with eq st show ?thesis by simp
            next
              case (Suc j')
              with Cons.prems eq have "j' < length (run_sleeps ?rest)" by simp
              from Cons.IH [OF this] show ?thesis using eq Suc by simp
            qed
          qed
        qed
      qed
    qed
  qed
qed

lemma randint_range:
  "randint 0 h seed = Inr r \<Longrightarrow> 0 \<le> r \<and> r \<le> h"
proof -
  assume a: "randint 0 h seed = Inr r"
  then have h: "0 \<le> h" and r: "r = int (seed mod nat (h + 1))"
    by (auto simp: randint_def split: if_splits)
  have "seed mod nat (h + 1) < nat (h + 1)" using h by simp
  then show ?thesis using r h by linarith
qed

lemma sleeptime_backoff:
  assumes "1 \<le> a" "sleeptime pint a seed = Inr t"
  shows "\<exists>r. 0 \<le> r \<and> r \<le> min 5000 (pint * 1000 * 2 ^ a) div 2 \<and>
           t = (real_of_int (min 5000 (pint * 1000 * 2 ^ a)) / 2 + real_of_int r) / 1000"
proof -
  from assms obtain r where r: "randint 0 (backoff_temp pint a div 2) seed = Inr r"
      and t: "t = (real_of_int (backoff_temp pint a) / 2 + real_of_int r) / 1000"
    by (auto simp: sleeptime_def split: sum.splits)
  from randint_range [OF r] show ?thesis
    using t by (auto simp: backoff_temp_def max_sleep_time_def)
qed

lemma sleeptime_bounded:
  assumes "1 \<le> a" "sleeptime pint a seed = Inr t"
  shows "t * 1000 \<le> 5000"
proof -
  from sleeptime_backoff [OF assms] obtain r where
    r: "0 \<le> r" "r \<le> min 5000 (pint * 1000 * 2 ^ a) div 2"
    and t: "t = (real_of_int (min 5000 (pint * 1000 * 2 ^ a)) / 2 + real_of_int r) / 1000"
    by blast
  define T where "T = min 5000 (pint * 1000 * 2 ^ a)"
  have T: "T \<le> 5000" by (simp add: T_def)
  have "2 * r \<le> T" using r(2) unfolding T_def [symmetric] by linarith
  then have "real_of_int r \<le> real_of_int T / 2" by linarith
  then have "real_of_int T / 2 + real_of_int r \<le> real_of_int T" by linarith
  also have "\<dots> \<le> 5000" using T by simp
  finally show ?thesis using t unfolding T_def [symmetric] by simp
qed

lemma sum_shifted_draws:
  "(\<Sum>r = 0..h. (c + real r) / 1000) = real (h + 1) * (c + real h / 2) / 1000"
  by (induction h) (simp_all add: field_simps)

lemma expected_sleeptime_closed:
  "expected_sleeptime pint a =
     (real_of_int (backoff_temp pint a) / 2 + real (nat (backoff_temp pint a div 2)) / 2) / 1000"
  by (simp add: expected_sleeptime_def sum_shifted_draws del: of_nat_Suc of_nat_add)

lemma backoff_temp_mono:
  assumes "0 \<le> pint" "a \<le> b"
  shows "backoff_temp pint a \<le> backoff_temp pint b"
proof -
  have "(2::int) ^ a \<le> 2 ^ b" using assms(2) by (simp add: power_increasing)
  then have "(pint * 1000) * 2 ^ a \<le> (pint * 1000) * 2 ^ b"
    using assms(1) by (simp add: mult_left_mono)
  then show ?thesis by (simp add: backoff_temp_def min.coboundedI2)
qed

lemma expected_sleeptime_mono:
  assumes "0 \<le> pint" "a \<le> b"
  shows "expected_sleeptime pint a \<le> expected_sleeptime pint b"
proof -
  have m: "backoff_temp pint a \<le> backoff_temp pint b"
    using assms by (rule backoff_temp_mono)
  then have "backoff_temp pint a div 2 \<le> backoff_temp pint b div 2"
    by (simp add: zdiv_mono1)
  then have "nat (backoff_temp pint a div 2) \<le> nat (backoff_temp pint b div 2)"
    by simp
  then have "real (nat (backoff_temp pint a div 2)) \<le> real (nat (backoff_temp pint b div 2))"
    by simp
  moreover have "real_of_int (backoff_temp pint a) \<le> real_of_int (backoff_temp pint b)"
    using m by simp
  ultimately have "real_of_int (backoff_temp pint a) / 2 + real (nat (backoff_temp pint a div 2)) / 2
      \<le> real_of_int (backoff_temp pint b) / 2 + real (nat (backoff_temp pint b div 2)) / 2"
    by linarith
  then show ?thesis
    unfolding expected_sleeptime_closed by (simp add: divide_right_mono)
qed

text \<open>
  Claim C4. In every run of the cooperative poller the first sleep is exactly 10 seconds,
  whatever the polling interval, and it does happen when the operation and its first
  polled description are both not \<open>DONE\<close>. The sleep after attempt \<open>a \<ge> 1\<close> is
  \<open>(temp / 2 + r) / 1000\<close> seconds for a draw \<open>r\<close> in \<open>0..temp div 2\<close>, with
  \<open>temp = min 5000 (polling_interval * 1000 * 2 ^ a)\<close>; it is at most 5000 ms, and the
  mean of the sleep after attempt \<open>a\<close> does not decrease with \<open>a\<close> from attempt 1 on.
\<close>

theorem backoff_sleep_schedule:
  assumes "run = gevent_blocking_call project_id (Some response) polling_interval rnd answers"
  shows "(op_status response \<noteq> ''DONE'' \<and> answers = Inr (Some response') # rest
            \<and> op_status response' \<noteq> ''DONE'' \<longrightarrow> (\<exists>ts. run_sleeps run = 10 # ts))
       \<and> (0 < length (run_sleeps run) \<longrightarrow> run_sleeps run ! 0 = 10)
       \<and> (1 \<le> a \<and> a < length (run_sleeps run) \<longrightarrow>
            (\<exists>r. 0 \<le> r \<and> r \<le> min 5000 (polling_interval * 1000 * 2 ^ a) div 2 \<and>
               run_sleeps run ! a =
                 (real_of_int (min 5000 (polling_interval * 1000 * 2 ^ a)) / 2 + real_of_int r)
                 / 1000)
            \<and> run_sleeps run ! a * 1000 \<le> 5000)
       \<and> (0 \<le> polling_interval \<and> 1 \<le> a \<and> a \<le> b \<longrightarrow>
            expected_sleeptime polling_interval a \<le> expected_sleeptime polling_interval b)"
proof -
  have run: "run = gevent_blocking_call_loop project_id polling_interval rnd 0 answers response"
    using assms by (simp add: gevent_blocking_call_def)
  have idx: "sleeptime polling_interval j (rnd j) = Inr (run_sleeps run ! j)"
    if "j < length (run_sleeps run)" for j
    using gevent_blocking_call_loop_sleeps [of j project_id polling_interval rnd 0 answers response]
      that run by simp
  have first: "\<exists>ts. run_sleeps run = 10 # ts"
    if "op_status response \<noteq> ''DONE'' \<and> answers = Inr (Some response') # rest
            \<and> op_status response' \<noteq> ''DONE''"
    using that run by (simp add: sleeptime_def run_step_def)
  have zero: "run_sleeps run ! 0 = 10" if "0 < length (run_sleeps run)"
    using idx [OF that] by (simp add: sleeptime_def)
  have later: "(\<exists>r. 0 \<le> r \<and> r \<le> min 5000 (polling_interval * 1000 * 2 ^ a) div 2 \<and>
               run_sleeps run ! a =
                 (real_of_int (min 5000 (polling_interval * 1000 * 2 ^ a)) / 2 + real_of_int r)
                 / 1000)
            \<and> run_sleeps run ! a * 1000 \<le> 5000"
    if "1 \<le> a \<and> a < length (run_sleeps run)"
  proof -
    from that have a: "1 \<le> a" and l: "a < length (run_sleeps run)" by auto
    from sleeptime_backoff [OF a idx [OF l]] sleeptime_bounded [OF a idx [OF l]]
    show ?thesis by blast
  qed
  have mono: "expected_sleeptime polling_interval a \<le> expected_sleeptime polling_interval b"
    if "0 \<le> polling_interval \<and> 1 \<le> a \<and> a \<le> b"
    using that expected_sleeptime_mono by blast
  from first zero later mono show ?thesis by blast
qed


theorem backoff_sleep_schedule_witness:
  "run_sleeps (gevent_blocking_call ''proj'' (Some running_op) 1 (\<lambda>a. 7 * a)
     [Inr (Some running_op), Inr (Some running_op), Inr (Some running_op)])
     = [10, 1007 / 1000, 2014 / 1000]
   \<and> (\<exists>r. 0 \<le> r \<and> r \<le> (1000::int) \<and> (1007 / 1000 :: real) = (2000 / 2 + real_of_int r) / 1000)
   \<and> expected_sleeptime 1 1 \<le> expected_sleeptime 1 2"
proof -
  let ?run = "gevent_blocking_call ''proj'' (Some running_op) 1 (\<lambda>a. 7 * a)
     [Inr (Some running_op), Inr (Some running_op), Inr (Some running_op)]"
  have sl: "run_sleeps ?run = [10, 1007 / 1000, 2014 / 1000]"
    by (simp add: gevent_blocking_call_def running_op_def run_step_def sleeptime_def
          randint_def backoff_temp_def max_sleep_time_def)
  from backoff_sleep_schedule [of ?run "''proj''" running_op 1 "\<lambda>a. 7 * a"
      "[Inr (Some running_op), Inr (Some running_op), Inr (Some running_op)]"
      running_op "[Inr (Some running_op), Inr (Some running_op)]" 1 2, OF refl]
  show ?thesis using sl by simp
qed

subsection \<open>Disk provisioning\<close>

lemma blocking_call_None_outcome:
  "run_outcome (blocking_call p None i a) = Some (Inl (TypeError NoneType_not_subscriptable))"
  by (simp add: blocking_call_def)

lemma absorb_blocking_call_None:
  "absorb_run (blocking_call p None i a) w = w"
  by (simp add: blocking_call_def absorb_run_def)

lemma added_disk_loop_calls:
  assumes "nr_instance_name req = Some inst"
  shows "\<exists>res w'. added_disk_loop env cfg req disks pds w = Some (res, w') \<and>
           (cloud_calls w' = cloud_calls w \<or>
            (\<exists>k d e. (k, d) \<in> set disks \<and> disk_adapter d = ''default''
               \<and> 1 < env_disk_index_int env k \<and> res = Inl e
               \<and> cloud_calls w' = cloud_calls w @
                   [DisksInsert (conf_project cfg) (conf_zone cfg)
                      (get_disk_volume_name inst (env_disk_index_int env k))
                      (real_of_int (disk_size d) / 1000)]))"
proof (induction disks arbitrary: pds w)
  case Nil
  then show ?case by simp
next
  case (Cons kd disks)
  obtain k d where kd: "kd = (k, d)" by (cases kd)
  show ?case
  proof (cases "disk_adapter d \<noteq> ''default''")
    case True
    have step: "added_disk_loop env cfg req (kd # disks) pds w
                = added_disk_loop env cfg req disks pds w"
      unfolding kd using True by simp
    from Cons.IH [of pds w] show ?thesis
      unfolding step by fastforce
  next
    case dflt: False
    show ?thesis
    proof (cases "1 < env_disk_index_int env k")
      case True
      show ?thesis
        unfolding kd using dflt True assms
        by (cases "env_disks_insert env (get_disk_volume_name inst (env_disk_index_int env k))")
           (auto simp: blocking_call_None_outcome absorb_blocking_call_None
              create_persistent_disk_def record_call_def)
    next
      case False
      let ?pds = "pds @ [\<lparr>pd_name = Some (get_disk_volume_name inst (env_disk_index_int env k)),
                         pd_sizeGb = real_of_int (disk_size d) / 1000, pd_link = None\<rparr>]"
      let ?w = "addDrive (nr_node req) (env_disk_index_int env k) w"
      have step: "added_disk_loop env cfg req (kd # disks) pds w
                  = added_disk_loop env cfg req disks ?pds ?w"
        unfolding kd using dflt False assms by simp
      have cc: "cloud_calls ?w = cloud_calls w" by (simp add: addDrive_def)
      from Cons.IH [of ?pds ?w] show ?thesis
        unfolding step cc by fastforce
    qed
  qed
qed

lemmas example_evals = example_env_def example_config_def pending_request_def init_new_node_def
  empty_world_def get_instance_name_from_host_name_def











text \<open>
  Claim C3 does not hold of the code. For a node with one added data disk, number 2, of
  the default adapter, the provisioner submits the disk-create call and then raises
  \<open>TypeError\<close>: \<open>__create_persistent_disk\<close> drops the operation, \<open>_blocking_call\<close> is
  given \<open>None\<close>, nothing is polled and no link is recorded.
\<close>

theorem data_disk_create_is_never_polled:
  "process_added_disk_changes data_disk_env example_config (pending_request ''compute-01'')
     empty_world
   = Some (Inl (TypeError NoneType_not_subscriptable),
           empty_world\<lparr>cloud_calls :=
             [DisksInsert ''proj'' ''us-central1-a'' ''compute-01-disk-02'' 10]\<rparr>)"
  by (simp add: process_added_disk_changes_def data_disk_env_def example_evals
        create_persistent_disk_def record_call_def blocking_call_None_outcome
        absorb_blocking_call_None get_disk_volume_name_def format_02d_def format_d_def)

lemma three_disk_run:
  "process_added_disk_changes three_disk_env example_config (pending_request ''compute-01'')
     empty_world
   = Some (Inl (TypeError NoneType_not_subscriptable),
           empty_world\<lparr>cloud_calls :=
             [DisksInsert ''proj'' ''us-central1-a'' ''compute-01-disk-02'' 20],
             san_drives := [(''compute-01'', 1)]\<rparr>)"
  by (simp add: process_added_disk_changes_def three_disk_env_def example_evals
        create_persistent_disk_def record_call_def blocking_call_None_outcome
        absorb_blocking_call_None get_disk_volume_name_def format_02d_def format_d_def addDrive_def)

subsection \<open>The worker on one request\<close>

lemma gevent_wait_for_instance_cases:
  assumes "gevent_wait_for_instance env cfg r w = Some (res, r1, w1)"
  shows "(\<exists>e. res = Inl e \<and> r1 = r)
       \<or> (\<exists>result. res = Inr (op_error result = None)
             \<and> r1 = r\<lparr>nr_status := (if op_error result \<noteq> None then Status_error
                                       else Status_success),
                       nr_result := Some result\<rparr>)"
  using assms
  by (auto simp: gevent_wait_for_instance_def split: option.splits sum.splits)

lemma gevent_wait_for_instance_status:
  assumes "gevent_wait_for_instance env cfg r w = Some (res, r1, w1)"
  shows "(\<exists>e. res = Inl e \<and> r1 = r)
       \<or> (res = Inr True \<and> nr_status r1 = Status_success)
       \<or> (res = Inr False \<and> nr_status r1 = Status_error)"
proof -
  from gevent_wait_for_instance_cases [OF assms] show ?thesis
  proof
    assume "\<exists>e. res = Inl e \<and> r1 = r"
    then show ?thesis by simp
  next
    assume "\<exists>result. res = Inr (op_error result = None)
             \<and> r1 = r\<lparr>nr_status := (if op_error result \<noteq> None then Status_error
                                       else Status_success),
                       nr_result := Some result\<rparr>"
    then obtain result where res: "res = Inr (op_error result = None)"
      and r1: "r1 = r\<lparr>nr_status := (if op_error result \<noteq> None then Status_error
                                       else Status_success),
                       nr_result := Some result\<rparr>"
      by blast
    show ?thesis
      by (cases "op_error result") (simp_all add: res r1)
  qed
qed

lemma gevent_wait_for_instance_success:
  assumes "gevent_wait_for_instance env cfg r w = Some (Inr True, r1, w1)"
  shows "nr_status r1 = Status_success \<and> nr_node r1 = nr_node r
       \<and> nr_instance_name r1 = nr_instance_name r"
  using gevent_wait_for_instance_cases [OF assms] by auto

lemma gevent_wait_for_instance_failure:
  assumes "gevent_wait_for_instance env cfg r w = Some (Inr False, r1, w1)"
  shows "nr_status r1 = Status_error"
  using gevent_wait_for_instance_cases [OF assms] by auto

lemma gevent_wait_for_instance_raise:
  assumes "gevent_wait_for_instance env cfg r w = Some (Inl e, r1, w1)"
  shows "r1 = r"
  using gevent_wait_for_instance_cases [OF assms] by auto

lemma mark_node_request_failed_status [simp]:
  "nr_status (mark_node_request_failed r m) = Status_error"
  by (simp add: mark_node_request_failed_def)

lemma mark_node_request_failed_node [simp]:
  "nr_node (mark_node_request_failed r m) = nr_node r"
  by (simp add: mark_node_request_failed_def)

lemma instance_post_launch_keeps:
  assumes "instance_post_launch env cfg r w = (exc, r2, w2)"
  shows "nr_status r2 = nr_status r \<and> node_name (nr_node r2) = node_name (nr_node r)
       \<and> nr_instance_name r2 = nr_instance_name r
       \<and> node_instance (nr_node r2) = node_instance (nr_node r)"
  using assms
  by (auto simp: instance_post_launch_def set_node_state_def append_nic_def
        split: option.splits sum.splits prod.splits list.splits)

lemma wait_for_instance_final:
  assumes "wait_for_instance env cfg r w = Some (r', w')"
  shows "\<exists>res r1 w1. gevent_wait_for_instance env cfg r w = Some (res, r1, w1)
           \<and> (nr_status r' = Status_error \<or> (res = Inr True \<and> nr_status r' = nr_status r1))"
proof -
  from assms obtain res r1 w1 where g: "gevent_wait_for_instance env cfg r w = Some (res, r1, w1)"
    by (auto simp: wait_for_instance_def split: option.splits)
  show ?thesis
  proof (cases res)
    case (Inl e)
    with assms g show ?thesis by (auto simp: wait_for_instance_def)
  next
    case (Inr b)
    show ?thesis
    proof (cases b)
      case False
      with assms g Inr show ?thesis
        by (auto simp: wait_for_instance_def split: option.splits)
    next
      case True
      obtain exc r2 w2 where h: "instance_post_launch env cfg r1 w1 = (exc, r2, w2)"
        by (cases "instance_post_launch env cfg r1 w1") auto
      from instance_post_launch_keeps [OF h] have st: "nr_status r2 = nr_status r1" by simp
      show ?thesis
      proof (cases exc)
        case None
        with assms g Inr True h st show ?thesis
          by (auto simp: wait_for_instance_def)
      next
        case (Some e)
        with assms g Inr True h show ?thesis
          by (auto simp: wait_for_instance_def split: prod.splits option.splits)
      qed
    qed
  qed
qed


lemma launch_loop_keeps:
  "launch_loop env cfg cla reqs w = Some (err, reqs', w') \<Longrightarrow>
     map nr_status reqs' = map nr_status reqs
     \<and> map (\<lambda>r. node_name (nr_node r)) reqs' = map (\<lambda>r. node_name (nr_node r)) reqs
     \<and> (err = None \<longrightarrow> (\<forall>r \<in> set reqs'. nr_response r \<noteq> None))"
proof (induction reqs arbitrary: w err reqs' w')
  case Nil
  then show ?case by simp
next
  case (Cons r reqs)
  show ?case
  proof (cases "env_instance_metadata env (node_name (nr_node r))")
    case (Inl e)
    with Cons.prems show ?thesis by auto
  next
    case md: (Inr metadata)
    let ?r1 = "r\<lparr>nr_instance_name := Some (get_instance_name_from_host_name (node_name (nr_node r)))\<rparr>"
    show ?thesis
    proof (cases "process_added_disk_changes env cfg ?r1 w")
      case None
      with Cons.prems md show ?thesis by simp
    next
      case (Some pr)
      obtain dres w1 where pr: "pr = (dres, w1)" by (cases pr)
      show ?thesis
      proof (cases dres)
        case (Inl e)
        with Cons.prems md Some pr show ?thesis by auto
      next
        case (Inr pds)
        let ?pds = "if pds = [] then [\<lparr>pd_name = None, pd_sizeGb = real_of_int (conf_disksize cfg),
                               pd_link = None\<rparr>] else pds"
        obtain lres w2 where li: "launch_instance env cfg
            (get_instance_name_from_host_name (node_name (nr_node r))) metadata cla ?pds w1
            = (lres, w2)"
          by (cases "launch_instance env cfg
            (get_instance_name_from_host_name (node_name (nr_node r))) metadata cla ?pds w1") auto
        show ?thesis
        proof (cases lres)
          case (Inl e)
          with Cons.prems md Some pr Inr li show ?thesis by auto
        next
          case resp: (Inr response)
          show ?thesis
          proof (cases "op_zone response")
            case None
            with Cons.prems md Some pr Inr li resp show ?thesis by auto
          next
            case z: (Some z)
            from Cons.prems md Some pr Inr li resp z
            obtain err2 rest' w3 where
              rec: "launch_loop env cfg cla reqs w2 = Some (err2, rest', w3)"
              and out: "err = err2" "w' = w3"
                "reqs' = r\<lparr>nr_instance_name :=
                                  Some (get_instance_name_from_host_name
                                          (node_name (nr_node r))),
                                  nr_response := Some response,
                                  nr_node := (nr_node r)\<lparr>node_instance :=
                                    Some \<lparr>im_instance =
                                            get_instance_name_from_host_name
                                              (node_name (nr_node r)),
                                          im_instance_metadata =
                                            (''zone'', last (split_on CHR ''/'' z))
                                            # (if cla_preemptible cla
                                               then [(''gce:scheduling'', ''preemptible'')]
                                               else [])\<rparr>\<rparr>\<rparr> # rest'"
              by (auto split: option.splits)
            from Cons.IH [OF rec] show ?thesis using out by auto
          qed
        qed
      qed
    qed
  qed
qed

text \<open>
  Claim C7, as amended. The status has the three values pending, success and error; a
  submitted request is a pending one that holds a response. Submission (the launch
  loop) and the post-launch hook leave the status as it is. The worker takes a pending
  request to success or error by the poll, and from success on to error when the hook
  raises; it never leaves error and never ends in pending.
\<close>

theorem request_status_moves_forward:
  "(launch_loop env cfg cla reqs w = Some (err, reqs', w') \<longrightarrow>
      map nr_status reqs' = map nr_status reqs)
   \<and> (instance_post_launch env cfg r w = (exc, r2, w2) \<longrightarrow> nr_status r2 = nr_status r)
   \<and> (nr_status r = Status_pending \<and> wait_for_instance env cfg r w = Some (r', w'') \<longrightarrow>
        (\<exists>res r1 w1. gevent_wait_for_instance env cfg r w = Some (res, r1, w1)
            \<and> status_step Status_pending (nr_status r1)
            \<and> status_step (nr_status r1) (nr_status r')
            \<and> (nr_status r1 = Status_error \<longrightarrow> nr_status r' = Status_error))
        \<and> nr_status r' \<noteq> Status_pending)"
proof (intro conjI impI)
  assume "launch_loop env cfg cla reqs w = Some (err, reqs', w')"
  from launch_loop_keeps [OF this] show "map nr_status reqs' = map nr_status reqs" by simp
next
  assume "instance_post_launch env cfg r w = (exc, r2, w2)"
  from instance_post_launch_keeps [OF this] show "nr_status r2 = nr_status r" by simp
next
  assume a: "nr_status r = Status_pending \<and> wait_for_instance env cfg r w = Some (r', w'')"
  then have p: "nr_status r = Status_pending" and wf: "wait_for_instance env cfg r w = Some (r', w'')"
    by auto
  from wait_for_instance_final [OF wf] obtain res r1 w1 where
    g: "gevent_wait_for_instance env cfg r w = Some (res, r1, w1)"
    and f: "nr_status r' = Status_error \<or> (res = Inr True \<and> nr_status r' = nr_status r1)"
    by blast
  from gevent_wait_for_instance_status [OF g] p
  have s1: "(\<exists>e. res = Inl e \<and> nr_status r1 = Status_pending)
          \<or> (res = Inr True \<and> nr_status r1 = Status_success)
          \<or> (res = Inr False \<and> nr_status r1 = Status_error)"
    by auto
  have A: "status_step Status_pending (nr_status r1)"
    by (auto simp: status_step_def)
  have B: "status_step (nr_status r1) (nr_status r')"
    using s1 f by (auto simp: status_step_def)
  have C: "nr_status r1 = Status_error \<longrightarrow> nr_status r' = Status_error"
    using s1 f by auto
  have D: "nr_status r' \<noteq> Status_pending"
    using s1 f by auto
  from g A B C show "\<exists>res r1 w1. gevent_wait_for_instance env cfg r w = Some (res, r1, w1)
            \<and> status_step Status_pending (nr_status r1)
            \<and> status_step (nr_status r1) (nr_status r')
            \<and> (nr_status r1 = Status_error \<longrightarrow> nr_status r' = Status_error)"
    by blast
  from D show "nr_status r' \<noteq> Status_pending" .
qed


lemmas worker_evals = wait_for_instance_def gevent_wait_for_instance_def gevent_blocking_call_def
  instance_post_launch_def gce_get_vm_def get_instance_internal_ip_def deleteInstance_def
  mark_node_request_failed_def set_node_state_def append_nic_def absorb_run_def run_step_def
  record_call_def record_log_def operations_get_def submitted_request_def
  submitted_operation_def done_operation_def failed_operation_def running_vm_def
  post_launch_failure_message_def error_logmsg_def

theorem request_status_moves_forward_witness:
  "nr_status (submitted_request ''compute-01'') = Status_pending
   \<and> (\<exists>res r1 w1 r' w''.
        wait_for_instance hook_fails_env example_config (submitted_request ''compute-01'')
          empty_world = Some (r', w'')
        \<and> gevent_wait_for_instance hook_fails_env example_config
            (submitted_request ''compute-01'') empty_world = Some (res, r1, w1)
        \<and> status_step Status_pending (nr_status r1)
        \<and> status_step (nr_status r1) (nr_status r')
        \<and> nr_status r' \<noteq> Status_pending)"
proof -
  have p: "nr_status (submitted_request ''compute-01'') = Status_pending"
    by (simp add: submitted_request_def pending_request_def)
  obtain r' w'' where wf: "wait_for_instance hook_fails_env example_config
      (submitted_request ''compute-01'') empty_world = Some (r', w'')"
    by (simp add: worker_evals hook_fails_env_def example_evals)
  from request_status_moves_forward
        [where env = hook_fails_env and cfg = example_config
           and r = "submitted_request ''compute-01''" and w = empty_world
           and r' = r' and w'' = w'']
  show ?thesis using p wf by blast
qed

text \<open>
  Claim C7 as stated fails: a request that has reached success is moved to error when
  registering the host raises in the post-launch hook.
\<close>

theorem success_then_error_counterexample:
  "map_option (nr_status \<circ> fst \<circ> snd)
     (gevent_wait_for_instance hook_fails_env example_config (submitted_request ''compute-01'')
        empty_world) = Some Status_success
   \<and> map_option (nr_status \<circ> fst)
       (wait_for_instance hook_fails_env example_config (submitted_request ''compute-01'')
          empty_world) = Some Status_error"
  by (simp add: worker_evals hook_fails_env_def example_evals)


lemma hook_raises_marks_error:
  assumes "gevent_wait_for_instance env cfg r w = Some (Inr True, r1, w1)"
      and "instance_post_launch env cfg r1 w1 = (Some exc, r2, w2)"
  shows "\<exists>r' w'. wait_for_instance env cfg r w = Some (r', w') \<and> nr_status r' = Status_error"
  using assms
  by (auto simp: wait_for_instance_def split: prod.splits option.splits)

text \<open>
  Claim C8, as amended. After a poll that ended in success, with the instance described
  by \<open>vm\<close>: when \<open>vm\<close> lists no network interface the hook logs and returns, and the
  request stays in success with the node installed and no interface record added; when
  the list of interfaces or the address of the first one is missing, the request ends in
  error; when the first interface has an address and registration succeeds, that address
  is appended to the node as its boot interface.
\<close>

theorem post_launch_address_handling:
  assumes "gevent_wait_for_instance env cfg r w = Some (Inr True, r1, w1)"
      and "nr_instance_name r1 = Some i"
      and "env_instances_get env i = Inr vm"
  shows "(vm_networkInterfaces vm = Some [] \<longrightarrow>
            (\<exists>w'. wait_for_instance env cfg r w
                    = Some (set_node_state NODE_STATE_INSTALLED r1, w'))
            \<and> nr_status (set_node_state NODE_STATE_INSTALLED r1) = Status_success
            \<and> node_nics (nr_node (set_node_state NODE_STATE_INSTALLED r1))
                = node_nics (nr_node r))
       \<and> (vm_networkInterfaces vm = None
            \<or> (\<exists>ni nis. vm_networkInterfaces vm = Some (ni # nis) \<and> vni_networkIP ni = None)
          \<longrightarrow> (\<exists>r' w'. wait_for_instance env cfg r w = Some (r', w')
                       \<and> nr_status r' = Status_error))
       \<and> (\<forall>ni nis ip. vm_networkInterfaces vm = Some (ni # nis) \<and> vni_networkIP ni = Some ip
             \<and> env_pre_add_host env (node_name (nr_node r1)) ip = None \<longrightarrow>
            (\<exists>w'. wait_for_instance env cfg r w
                    = Some (append_nic ip (set_node_state NODE_STATE_INSTALLED r1), w')))"
proof (intro conjI impI allI)
  assume e: "vm_networkInterfaces vm = Some []"
  have h: "instance_post_launch env cfg r1 w1
            = (None, set_node_state NODE_STATE_INSTALLED r1,
               record_log (Error_vm_no_ip_address i)
                 (record_call (InstancesGet (conf_project cfg) (conf_zone cfg) i) w1))"
    using assms(2,3) e
    by (simp add: instance_post_launch_def gce_get_vm_def get_instance_internal_ip_def)
  show "\<exists>w'. wait_for_instance env cfg r w = Some (set_node_state NODE_STATE_INSTALLED r1, w')"
    using assms(1) h by (simp add: wait_for_instance_def)
  show "nr_status (set_node_state NODE_STATE_INSTALLED r1) = Status_success"
    using gevent_wait_for_instance_success [OF assms(1)] by (simp add: set_node_state_def)
  show "node_nics (nr_node (set_node_state NODE_STATE_INSTALLED r1)) = node_nics (nr_node r)"
    using gevent_wait_for_instance_success [OF assms(1)] by (simp add: set_node_state_def)
next
  assume m: "vm_networkInterfaces vm = None
            \<or> (\<exists>ni nis. vm_networkInterfaces vm = Some (ni # nis) \<and> vni_networkIP ni = None)"
  then obtain k where k: "get_instance_internal_ip vm = Inl (KeyError k)"
    by (auto simp: get_instance_internal_ip_def)
  have h: "instance_post_launch env cfg r1 w1
            = (Some (KeyError k), set_node_state NODE_STATE_INSTALLED r1,
               record_call (InstancesGet (conf_project cfg) (conf_zone cfg) i) w1)"
    using assms(2,3) k
    by (simp add: instance_post_launch_def gce_get_vm_def)
  from hook_raises_marks_error [OF assms(1) h]
  show "\<exists>r' w'. wait_for_instance env cfg r w = Some (r', w') \<and> nr_status r' = Status_error" .
next
  fix ni nis ip
  assume a: "vm_networkInterfaces vm = Some (ni # nis) \<and> vni_networkIP ni = Some ip
             \<and> env_pre_add_host env (node_name (nr_node r1)) ip = None"
  have "\<exists>w2. instance_post_launch env cfg r1 w1
            = (None, append_nic ip (set_node_state NODE_STATE_INSTALLED r1), w2)"
    using assms(2,3) a
    by (simp add: instance_post_launch_def gce_get_vm_def get_instance_internal_ip_def)
  then show "\<exists>w'. wait_for_instance env cfg r w
                    = Some (append_nic ip (set_node_state NODE_STATE_INSTALLED r1), w')"
    using assms(1) by (auto simp: wait_for_instance_def)
qed

lemma example_poll_succeeds:
  "gevent_wait_for_instance no_interface_env example_config (submitted_request ''compute-01'')
     empty_world
   = Some (Inr True,
       (submitted_request ''compute-01'')\<lparr>nr_status := Status_success,
          nr_result := Some (done_operation ''op-compute-01'')\<rparr>,
       empty_world\<lparr>cloud_calls :=
          [ZoneOperationsGet ''proj'' ''op-compute-01'' ''us-central1-a'']\<rparr>)"
  by (simp add: worker_evals no_interface_env_def example_evals)

theorem post_launch_address_handling_witness:
  "\<exists>w'. wait_for_instance no_interface_env example_config (submitted_request ''compute-01'')
          empty_world
        = Some (set_node_state NODE_STATE_INSTALLED
                  ((submitted_request ''compute-01'')\<lparr>nr_status := Status_success,
                     nr_result := Some (done_operation ''op-compute-01'')\<rparr>), w')"
proof -
  have i: "nr_instance_name ((submitted_request ''compute-01'')\<lparr>nr_status := Status_success,
                     nr_result := Some (done_operation ''op-compute-01'')\<rparr>) = Some ''compute-01''"
    by (simp add: submitted_request_def pending_request_def get_instance_name_from_host_name_def)
  have v: "env_instances_get no_interface_env ''compute-01'' = Inr \<lparr>vm_networkInterfaces = Some []\<rparr>"
    by (simp add: no_interface_env_def example_env_def)
  from post_launch_address_handling [OF example_poll_succeeds i v]
  show ?thesis by simp
qed

text \<open>
  Claim C8 as stated fails: an instance described without any network interface leaves
  its request in success, and the batch call returns its node as provisioned, without an
  interface record.
\<close>

theorem no_address_keeps_success_counterexample:
  "env_instances_get no_interface_env ''compute-01'' = Inr \<lparr>vm_networkInterfaces = Some []\<rparr>
   \<and> map_option (nr_status \<circ> fst)
       (wait_for_instance no_interface_env example_config (submitted_request ''compute-01'')
          empty_world) = Some Status_success
   \<and> map_option fst
       (addActiveNodes no_interface_env example_config None [''compute-01''] empty_world)
     = Some (Inr [\<lparr>node_name = ''compute-01'', node_state = NODE_STATE_PROVISIONED,
                   node_nics = [],
                   node_instance = Some \<lparr>im_instance = ''compute-01'',
                     im_instance_metadata = [(''zone'', ''us-central1-a'')]\<rparr>\<rparr>])"
  by (simp add: worker_evals no_interface_env_def example_evals addActiveNodes_def
        launch_instances_def get_common_launch_args_def resolve_image_def
        build_node_request_queue_def process_added_disk_changes_def launch_instance_def
        wait_for_instances_def post_launch_action_def fire_provisioned_event_def
        get_network_interface_definitions_def get_network_interface_def
        split_forward_slash_value_def get_network_flags_def enable_external_network_access_def
        set_external_network_access_def)

subsection \<open>Reconciliation and the batch call\<close>

lemma deleted_disk_loop_fields:
  "log (deleted_disk_loop env nd ds w) = log w
   \<and> cloud_calls (deleted_disk_loop env nd ds w) = cloud_calls w
   \<and> db_nodes (deleted_disk_loop env nd ds w) = db_nodes w
   \<and> session_nodes (deleted_disk_loop env nd ds w) = session_nodes w
   \<and> provisioned_events (deleted_disk_loop env nd ds w) = provisioned_events w
   \<and> db_commits (deleted_disk_loop env nd ds w) = db_commits w"
  by (induction ds arbitrary: w) (auto simp: deleteDrive_def)

lemma deleted_disk_loop_shrinks:
  "set (san_drives (deleted_disk_loop env nd ds w)) \<subseteq> set (san_drives w)"
proof (induction ds arbitrary: w)
  case Nil
  then show ?case by simp
next
  case (Cons kd ds)
  obtain k d where kd: "kd = (k, d)" by (cases kd)
  have "set (san_drives (deleteDrive nd (env_disk_index_int env k) w)) \<subseteq> set (san_drives w)"
    by (auto simp: deleteDrive_def)
  with Cons.IH [of w] Cons.IH [of "deleteDrive nd (env_disk_index_int env k) w"]
  show ?case unfolding kd by auto
qed

lemma deleted_disk_loop_removes:
  "(k, d) \<in> set ds \<Longrightarrow> disk_adapter d = ''default'' \<Longrightarrow>
     (node_name nd, env_disk_index_int env k) \<notin> set (san_drives (deleted_disk_loop env nd ds w))"
proof (induction ds arbitrary: w)
  case Nil
  then show ?case by simp
next
  case (Cons kd ds)
  obtain k' d' where kd: "kd = (k', d')" by (cases kd)
  show ?case
  proof (cases "(k, d) = (k', d')")
    case True
    have "(node_name nd, env_disk_index_int env k)
            \<notin> set (san_drives (deleteDrive nd (env_disk_index_int env k) w))"
      by (simp add: deleteDrive_def)
    then have "(node_name nd, env_disk_index_int env k)
            \<notin> set (san_drives (deleted_disk_loop env nd ds
                                  (deleteDrive nd (env_disk_index_int env k) w)))"
      using deleted_disk_loop_shrinks by blast
    then show ?thesis unfolding kd using True Cons.prems by simp
  next
    case False
    with Cons.prems kd have "(k, d) \<in> set ds" by auto
    from Cons.IH [OF this Cons.prems(2)] show ?thesis unfolding kd by simp
  qed
qed

lemma node_cleanup_fields:
  "log (node_cleanup env nd w) = log w
   \<and> cloud_calls (node_cleanup env nd w) = cloud_calls w
   \<and> db_nodes (node_cleanup env nd w) = db_nodes w
   \<and> provisioned_events (node_cleanup env nd w) = provisioned_events w
   \<and> db_commits (node_cleanup env nd w) = db_commits w
   \<and> session_nodes (node_cleanup env nd w) = filter (\<lambda>n. n \<noteq> node_name nd) (session_nodes w)
   \<and> set (san_drives (node_cleanup env nd w)) \<subseteq> set (san_drives w)"
proof -
  have "set (san_drives (node_cleanup env nd w)) \<subseteq> set (san_drives (clear_session_node nd w))"
    unfolding node_cleanup_def process_deleted_disk_changes_def
    by (rule deleted_disk_loop_shrinks)
  then show ?thesis
    by (simp add: node_cleanup_def process_deleted_disk_changes_def deleted_disk_loop_fields
          clear_session_node_def)
qed

lemma node_cleanup_removes:
  "(k, d) \<in> set (env_removed_disks env (node_name nd)) \<Longrightarrow> disk_adapter d = ''default'' \<Longrightarrow>
     (node_name nd, env_disk_index_int env k) \<notin> set (san_drives (node_cleanup env nd w))"
  unfolding node_cleanup_def process_deleted_disk_changes_def
  by (rule deleted_disk_loop_removes)


lemma post_launch_loop_result:
  "post_launch_loop env reqs result completed w = (res, c, w') \<Longrightarrow>
     res = result @ map provisioned (filter succeeded reqs)
     \<and> c = completed + length (filter succeeded reqs)"
proof (induction reqs arbitrary: result completed w)
  case Nil
  then show ?case by simp
next
  case (Cons r reqs)
  show ?case
  proof (cases "nr_status r \<noteq> Status_success")
    case True
    with Cons.prems have "post_launch_loop env reqs result completed
          (db_delete (nr_node r)
             (node_cleanup env (nr_node r)
                (record_log
                   (case nr_instance_name r of
                      Some i \<Rightarrow> Error_cleaning_up_failed_instance i (node_name (nr_node r))
                    | None \<Rightarrow> Error_cleaning_up_node (node_name (nr_node r))) w)))
         = (res, c, w')"
      by simp
    from Cons.IH [OF this] True show ?thesis by (simp add: succeeded_def)
  next
    case False
    with Cons.prems have "post_launch_loop env reqs
          (result @ [(nr_node r)\<lparr>node_state := NODE_STATE_PROVISIONED\<rparr>]) (completed + 1)
          (fire_provisioned_event (nr_node r) w) = (res, c, w')"
      by simp
    from Cons.IH [OF this] False show ?thesis by (simp add: succeeded_def provisioned_def)
  qed
qed

lemma post_launch_loop_world:
  "post_launch_loop env reqs result completed w = (res, c, w') \<Longrightarrow>
     cloud_calls w' = cloud_calls w
     \<and> db_commits w' = db_commits w
     \<and> set (db_nodes w') \<subseteq> set (db_nodes w)
     \<and> set (session_nodes w') \<subseteq> set (session_nodes w)
     \<and> set (san_drives w') \<subseteq> set (san_drives w)
     \<and> (\<forall>c n. Warning_only_launched c n \<in> set (log w')
               \<longleftrightarrow> Warning_only_launched c n \<in> set (log w))"
proof (induction reqs arbitrary: result completed w)
  case Nil
  then show ?case by simp
next
  case (Cons r reqs)
  show ?case
  proof (cases "nr_status r \<noteq> Status_success")
    case True
    let ?w0 = "record_log
                   (case nr_instance_name r of
                      Some i \<Rightarrow> Error_cleaning_up_failed_instance i (node_name (nr_node r))
                    | None \<Rightarrow> Error_cleaning_up_node (node_name (nr_node r))) w"
    let ?w1 = "db_delete (nr_node r) (node_cleanup env (nr_node r) ?w0)"
    from Cons.prems True have rec: "post_launch_loop env reqs result completed ?w1 = (res, c, w')"
      by simp
    have w0: "cloud_calls ?w0 = cloud_calls w" "db_commits ?w0 = db_commits w"
      "db_nodes ?w0 = db_nodes w" "session_nodes ?w0 = session_nodes w"
      "san_drives ?w0 = san_drives w"
      "\<forall>c n. Warning_only_launched c n \<in> set (log ?w0)
               \<longleftrightarrow> Warning_only_launched c n \<in> set (log w)"
      by (auto simp: record_log_def split: option.splits)
    have w1: "cloud_calls ?w1 = cloud_calls w" "db_commits ?w1 = db_commits w"
      "set (db_nodes ?w1) \<subseteq> set (db_nodes w)" "set (session_nodes ?w1) \<subseteq> set (session_nodes w)"
      "set (san_drives ?w1) \<subseteq> set (san_drives w)"
      "\<forall>c n. Warning_only_launched c n \<in> set (log ?w1)
               \<longleftrightarrow> Warning_only_launched c n \<in> set (log w)"
      using node_cleanup_fields [of env "nr_node r" ?w0] w0
      by (auto simp: db_delete_def)
    from Cons.IH [OF rec] w1 show ?thesis by auto
  next
    case False
    let ?w1 = "fire_provisioned_event (nr_node r) w"
    from Cons.prems False have rec: "post_launch_loop env reqs
          (result @ [(nr_node r)\<lparr>node_state := NODE_STATE_PROVISIONED\<rparr>]) (completed + 1) ?w1
        = (res, c, w')"
      by simp
    from Cons.IH [OF rec] show ?thesis by (simp add: fire_provisioned_event_def)
  qed
qed

lemma post_launch_loop_rollback:
  assumes "post_launch_loop env reqs result completed w = (res, c, w')"
      and "r \<in> set reqs" and "\<not> succeeded r"
  shows "node_name (nr_node r) \<notin> set (db_nodes w')
       \<and> node_name (nr_node r) \<notin> set (session_nodes w')
       \<and> (\<forall>(k, d) \<in> set (env_removed_disks env (node_name (nr_node r))).
             disk_adapter d = ''default'' \<longrightarrow>
             (node_name (nr_node r), env_disk_index_int env k) \<notin> set (san_drives w'))"
  using assms
proof (induction reqs arbitrary: result completed w)
  case Nil
  then show ?case by simp
next
  case (Cons q reqs)
  show ?case
  proof (cases "nr_status q \<noteq> Status_success")
    case True
    let ?w0 = "record_log
                   (case nr_instance_name q of
                      Some i \<Rightarrow> Error_cleaning_up_failed_instance i (node_name (nr_node q))
                    | None \<Rightarrow> Error_cleaning_up_node (node_name (nr_node q))) w"
    let ?w1 = "db_delete (nr_node q) (node_cleanup env (nr_node q) ?w0)"
    from Cons.prems(1) True
    have rec: "post_launch_loop env reqs result completed ?w1 = (res, c, w')"
      by simp
    show ?thesis
    proof (cases "r = q")
      case True
      have a: "node_name (nr_node q) \<notin> set (db_nodes ?w1)"
        by (simp add: db_delete_def)
      have b: "node_name (nr_node q) \<notin> set (session_nodes ?w1)"
        using node_cleanup_fields [of env "nr_node q" ?w0] by (simp add: db_delete_def)
      have c: "\<forall>(k, d) \<in> set (env_removed_disks env (node_name (nr_node q))).
             disk_adapter d = ''default'' \<longrightarrow>
             (node_name (nr_node q), env_disk_index_int env k) \<notin> set (san_drives ?w1)"
        using node_cleanup_removes [of _ _ env "nr_node q" ?w0] by (auto simp: db_delete_def)
      from post_launch_loop_world [OF rec] a b c show ?thesis
        unfolding True by blast
    next
      case False
      with Cons.prems(2) have "r \<in> set reqs" by simp
      from Cons.IH [OF rec this Cons.prems(3)] show ?thesis .
    qed
  next
    case False
    then have "succeeded q" by (simp add: succeeded_def)
    with Cons.prems(2,3) have in_rest: "r \<in> set reqs" by auto
    from Cons.prems(1) False have rec: "post_launch_loop env reqs
          (result @ [(nr_node q)\<lparr>node_state := NODE_STATE_PROVISIONED\<rparr>]) (completed + 1)
          (fire_provisioned_event (nr_node q) w) = (res, c, w')"
      by simp
    from Cons.IH [OF rec in_rest Cons.prems(3)] show ?thesis .
  qed
qed

lemma post_launch_action_result:
  assumes "post_launch_action env reqs w = (result, w')"
  shows "result = map provisioned (filter succeeded reqs)
       \<and> cloud_calls w' = cloud_calls w
       \<and> (\<forall>c n. Warning_only_launched c n \<in> set (log w') \<longleftrightarrow>
             Warning_only_launched c n \<in> set (log w)
             \<or> (c = length (filter succeeded reqs) \<and> n = length reqs \<and> 0 < c \<and> c < n))"
proof -
  obtain res c w1 where l: "post_launch_loop env reqs [] 0 w = (res, c, w1)"
    by (cases "post_launch_loop env reqs [] 0 w") auto
  from post_launch_loop_result [OF l] have r: "res = map provisioned (filter succeeded reqs)"
    and c: "c = length (filter succeeded reqs)" by auto
  from assms l have out: "result = res"
    "w' = (if c \<noteq> 0 \<and> c < length reqs
            then record_log (Warning_only_launched c (length reqs))
                   (w1\<lparr>db_commits := db_commits w1 + 1\<rparr>)
            else w1\<lparr>db_commits := db_commits w1 + 1\<rparr>)"
    by (auto simp: post_launch_action_def)
  from post_launch_loop_world [OF l] show ?thesis
    unfolding out r c [symmetric] by (auto simp: record_log_def)
qed

lemma post_launch_action_rollback:
  assumes "post_launch_action env reqs w = (result, w')"
      and "r \<in> set reqs" and "\<not> succeeded r"
  shows "node_name (nr_node r) \<notin> set (db_nodes w')
       \<and> node_name (nr_node r) \<notin> set (session_nodes w')
       \<and> (\<forall>(k, d) \<in> set (env_removed_disks env (node_name (nr_node r))).
             disk_adapter d = ''default'' \<longrightarrow>
             (node_name (nr_node r), env_disk_index_int env k) \<notin> set (san_drives w'))"
proof -
  obtain res c w1 where l: "post_launch_loop env reqs [] 0 w = (res, c, w1)"
    by (cases "post_launch_loop env reqs [] 0 w") auto
  from assms(1) l have
    "db_nodes w' = db_nodes w1" "session_nodes w' = session_nodes w1"
    "san_drives w' = san_drives w1"
    by (auto simp: post_launch_action_def record_log_def split: if_splits)
  with post_launch_loop_rollback [OF l assms(2,3)] show ?thesis by simp
qed


lemma gevent_wait_for_instance_node:
  assumes "gevent_wait_for_instance env cfg r w = Some (res, r1, w1)"
  shows "nr_node r1 = nr_node r"
  using gevent_wait_for_instance_cases [OF assms] by auto

lemma wait_for_instance_keeps_name:
  assumes "wait_for_instance env cfg r w = Some (r', w')"
  shows "node_name (nr_node r') = node_name (nr_node r)"
proof -
  from assms obtain res r1 w1 where g: "gevent_wait_for_instance env cfg r w = Some (res, r1, w1)"
    by (auto simp: wait_for_instance_def split: option.splits)
  note n1 = gevent_wait_for_instance_node [OF g]
  obtain exc r2 w2 where h: "instance_post_launch env cfg r1 w1 = (exc, r2, w2)"
    by (cases "instance_post_launch env cfg r1 w1") auto
  from instance_post_launch_keeps [OF h] have n2: "node_name (nr_node r2) = node_name (nr_node r1)"
    by simp
  from assms g h n1 n2 show ?thesis
    by (auto simp: wait_for_instance_def split: sum.splits bool.splits option.splits prod.splits
          if_splits)
qed

lemma wait_for_instance_not_pending:
  assumes "wait_for_instance env cfg r w = Some (r', w')"
  shows "nr_status r' = Status_success \<or> nr_status r' = Status_error"
proof -
  from wait_for_instance_final [OF assms] obtain res r1 w1 where
    g: "gevent_wait_for_instance env cfg r w = Some (res, r1, w1)"
    and f: "nr_status r' = Status_error \<or> (res = Inr True \<and> nr_status r' = nr_status r1)"
    by blast
  from gevent_wait_for_instance_status [OF g] f show ?thesis by auto
qed

lemma wait_workers_keeps:
  "wait_workers env cfg reqs w = Some (reqs', w') \<Longrightarrow>
     map (\<lambda>r. node_name (nr_node r)) reqs' = map (\<lambda>r. node_name (nr_node r)) reqs
     \<and> ((\<forall>r \<in> set reqs. nr_response r \<noteq> None) \<longrightarrow>
          (\<forall>r' \<in> set reqs'. nr_status r' = Status_success \<or> nr_status r' = Status_error))"
proof (induction reqs arbitrary: w reqs' w')
  case Nil
  then show ?case by simp
next
  case (Cons r reqs)
  show ?case
  proof (cases "nr_response r")
    case None
    with Cons.prems obtain rest' where rec: "wait_workers env cfg reqs w = Some (rest', w')"
      and out: "reqs' = r # rest'"
      by (auto split: option.splits)
    from Cons.IH [OF rec] show ?thesis using out None by simp
  next
    case (Some resp)
    with Cons.prems obtain r1 w1 rest' where
      wf: "wait_for_instance env cfg r w = Some (r1, w1)"
      and rec: "wait_workers env cfg reqs w1 = Some (rest', w')"
      and out: "reqs' = r1 # rest'"
      by (auto split: option.splits)
    from Cons.IH [OF rec] wait_for_instance_keeps_name [OF wf]
      wait_for_instance_not_pending [OF wf]
    show ?thesis using out by auto
  qed
qed

lemma raise_if_any_failed_none:
  "fst (raise_if_any_failed reqs w) = None \<longleftrightarrow> (\<forall>r \<in> set reqs. nr_status r \<noteq> Status_error)"
  by (induction reqs) (auto split: option.splits)

lemma raise_if_any_failed_error:
  "fst (raise_if_any_failed reqs w) = Some e \<Longrightarrow>
     e = CommandFailed ''Fatal error launching one or more instances'' \<or> e = KeyError ''message''"
  by (induction reqs) (auto split: option.splits if_splits)

lemma build_node_request_queue_names:
  "map (\<lambda>r. node_name (nr_node r)) (build_node_request_queue (map init_new_node names)) = names"
  by (induction names) (auto simp: build_node_request_queue_def init_new_node_def)

lemma build_node_request_queue_pending:
  "r \<in> set (build_node_request_queue nodes) \<Longrightarrow> nr_status r = Status_pending"
  by (auto simp: build_node_request_queue_def)

lemma launch_instances_cases:
  assumes "launch_instances env cfg extra reqs w = Some (err, reqs', w')"
  shows "(\<exists>e. err = Some e \<and> map nr_status reqs' = map nr_status reqs)
       \<or> (\<exists>reqs0 w0 w1. map (\<lambda>r. node_name (nr_node r)) reqs0 = map (\<lambda>r. node_name (nr_node r)) reqs
             \<and> (\<forall>r \<in> set reqs0. nr_response r \<noteq> None)
             \<and> wait_workers env cfg reqs0 w0 = Some (reqs', w1)
             \<and> err = fst (raise_if_any_failed reqs' w1))"
proof (cases "get_common_launch_args env cfg extra w")
  case (Pair res w1)
  show ?thesis
  proof (cases res)
    case (Inl e)
    with assms Pair show ?thesis by (auto simp: launch_instances_def)
  next
    case (Inr cla)
    show ?thesis
    proof (cases "launch_loop env cfg cla reqs w1")
      case None
      with assms Pair Inr show ?thesis by (simp add: launch_instances_def)
    next
      case (Some t)
      obtain lerr reqs0 w2 where t: "t = (lerr, reqs0, w2)" by (cases t)
      note keeps = launch_loop_keeps [OF Some [unfolded t]]
      show ?thesis
      proof (cases lerr)
        case (Some e)
        with assms Pair Inr \<open>launch_loop env cfg cla reqs w1 = Some t\<close> t keeps show ?thesis
          by (auto simp: launch_instances_def)
      next
        case None
        with assms Pair Inr \<open>launch_loop env cfg cla reqs w1 = Some t\<close> t
        have wfi: "wait_for_instances env cfg reqs0 w2 = Some (err, reqs', w')"
          by (simp add: launch_instances_def)
        then obtain w3 where ww: "wait_workers env cfg reqs0 w2 = Some (reqs', w3)"
          and e: "err = fst (raise_if_any_failed reqs' w3)"
          by (auto simp: wait_for_instances_def split: option.splits)
        from keeps None ww e show ?thesis by blast
      qed
    qed
  qed
qed

text \<open>
  Claim C1, as amended. The batch call returns a node list only when every request has
  succeeded, and then it returns all the nodes. Whenever a request ends the wait phase in
  error status, the call raises after the reconciliation has run: \<open>CommandFailed\<close>, or
  \<open>KeyError\<close> when the first failed request holds no message. The reconciliation
  collects the nodes of the requests in success status, marked provisioned, and logs the
  partial-success warning exactly when the number of successes is strictly between zero
  and the number of requests.
\<close>

theorem failure_raises_after_reconciliation:
  "(addActiveNodes env cfg extra names w = Some (Inr nodes, w') \<longrightarrow> map node_name nodes = names)
   \<and> (launch_instances env cfg extra (build_node_request_queue (map init_new_node names))
         (w\<lparr>db_nodes := db_nodes w @ names, db_commits := db_commits w + 1\<rparr>)
        = Some (err, reqs, w1)
      \<and> (\<exists>r \<in> set reqs. nr_status r = Status_error) \<longrightarrow>
        (\<exists>e. err = Some e
           \<and> (e = CommandFailed ''Fatal error launching one or more instances''
                \<or> e = KeyError ''message'')
           \<and> addActiveNodes env cfg extra names w
               = Some (Inl e, snd (post_launch_action env reqs w1))))
   \<and> (post_launch_action env reqs w1 = (result, w2) \<longrightarrow>
        result = map provisioned (filter succeeded reqs)
        \<and> (\<forall>c n. Warning_only_launched c n \<in> set (log w2) \<longleftrightarrow>
              Warning_only_launched c n \<in> set (log w1)
              \<or> (c = length (filter succeeded reqs) \<and> n = length reqs \<and> 0 < c \<and> c < n)))"
proof (intro conjI impI)
  let ?q = "build_node_request_queue (map init_new_node names)"
  let ?w = "w\<lparr>db_nodes := db_nodes w @ names, db_commits := db_commits w + 1\<rparr>"
  assume a: "addActiveNodes env cfg extra names w = Some (Inr nodes, w')"
  then obtain rs wl where li: "launch_instances env cfg extra ?q ?w = Some (None, rs, wl)"
    and nodes: "nodes = fst (post_launch_action env rs wl)"
    by (auto simp: addActiveNodes_def split: option.splits)
  from launch_instances_cases [OF li] obtain reqs0 w0 w3 where
    n0: "map (\<lambda>r. node_name (nr_node r)) reqs0 = map (\<lambda>r. node_name (nr_node r)) ?q"
    and resp: "\<forall>r \<in> set reqs0. nr_response r \<noteq> None"
    and ww: "wait_workers env cfg reqs0 w0 = Some (rs, w3)"
    and none: "None = fst (raise_if_any_failed rs w3)"
    by auto
  from wait_workers_keeps [OF ww] resp
  have n1: "map (\<lambda>r. node_name (nr_node r)) rs = map (\<lambda>r. node_name (nr_node r)) reqs0"
    and fin: "\<forall>r' \<in> set rs. nr_status r' = Status_success \<or> nr_status r' = Status_error"
    by auto
  from none have "\<forall>r \<in> set rs. nr_status r \<noteq> Status_error"
    using raise_if_any_failed_none [of rs w3] by simp
  with fin have "\<forall>r \<in> set rs. succeeded r" by (auto simp: succeeded_def)
  then have all: "filter succeeded rs = rs" by (simp add: filter_id_conv)
  obtain result wz where p: "post_launch_action env rs wl = (result, wz)"
    by (cases "post_launch_action env rs wl") auto
  from post_launch_action_result [OF p] all nodes p
  have "nodes = map provisioned rs" by simp
  then have "map node_name nodes = map (\<lambda>r. node_name (nr_node r)) rs"
    by (simp add: provisioned_def comp_def)
  with n1 n0 build_node_request_queue_names show "map node_name nodes = names" by simp
next
  let ?q = "build_node_request_queue (map init_new_node names)"
  let ?w = "w\<lparr>db_nodes := db_nodes w @ names, db_commits := db_commits w + 1\<rparr>"
  assume a: "launch_instances env cfg extra ?q ?w = Some (err, reqs, w1)
      \<and> (\<exists>r \<in> set reqs. nr_status r = Status_error)"
  then have li: "launch_instances env cfg extra ?q ?w = Some (err, reqs, w1)"
    and ex: "\<exists>r \<in> set reqs. nr_status r = Status_error" by auto
  from launch_instances_cases [OF li]
  have "\<exists>e. err = Some e \<and> (e = CommandFailed ''Fatal error launching one or more instances''
                \<or> e = KeyError ''message'')"
  proof
    assume "\<exists>e. err = Some e \<and> map nr_status reqs = map nr_status ?q"
    then have st: "map nr_status reqs = map nr_status ?q" by auto
    have "\<forall>s \<in> set (map nr_status ?q). s = Status_pending"
      using build_node_request_queue_pending by auto
    with st have "\<forall>s \<in> set (map nr_status reqs). s = Status_pending" by simp
    with ex show ?thesis by auto
  next
    assume "\<exists>reqs0 w0 w1'. map (\<lambda>r. node_name (nr_node r)) reqs0 = map (\<lambda>r. node_name (nr_node r)) ?q
             \<and> (\<forall>r \<in> set reqs0. nr_response r \<noteq> None)
             \<and> wait_workers env cfg reqs0 w0 = Some (reqs, w1')
             \<and> err = fst (raise_if_any_failed reqs w1')"
    then obtain w3 where e: "err = fst (raise_if_any_failed reqs w3)" by auto
    from ex have "fst (raise_if_any_failed reqs w3) \<noteq> None"
      using raise_if_any_failed_none [of reqs w3] by auto
    then obtain x where x: "fst (raise_if_any_failed reqs w3) = Some x" by auto
    from raise_if_any_failed_error [OF x] e x show ?thesis by simp
  qed
  then obtain e where e: "err = Some e" "e = CommandFailed ''Fatal error launching one or more instances''
                \<or> e = KeyError ''message''" by blast
  from li e(1) have "addActiveNodes env cfg extra names w
               = Some (Inl e, snd (post_launch_action env reqs w1))"
    by (simp add: addActiveNodes_def)
  with e show "\<exists>e. err = Some e
           \<and> (e = CommandFailed ''Fatal error launching one or more instances''
                \<or> e = KeyError ''message'')
           \<and> addActiveNodes env cfg extra names w
               = Some (Inl e, snd (post_launch_action env reqs w1))"
    by blast
next
  assume p: "post_launch_action env reqs w1 = (result, w2)"
  from post_launch_action_result [OF p]
  show "result = map provisioned (filter succeeded reqs)" by simp
next
  assume p: "post_launch_action env reqs w1 = (result, w2)"
  from post_launch_action_result [OF p]
  show "\<forall>c n. Warning_only_launched c n \<in> set (log w2) \<longleftrightarrow>
              Warning_only_launched c n \<in> set (log w1)
              \<or> (c = length (filter succeeded reqs) \<and> n = length reqs \<and> 0 < c \<and> c < n)"
    by simp
qed


lemmas batch_evals = addActiveNodes_def launch_instances_def get_common_launch_args_def
  resolve_image_def build_node_request_queue_def process_added_disk_changes_def
  launch_instance_def wait_for_instances_def post_launch_action_def fire_provisioned_event_def
  get_network_interface_definitions_def get_network_interface_def
  split_forward_slash_value_def get_network_flags_def enable_external_network_access_def
  set_external_network_access_def node_cleanup_def process_deleted_disk_changes_def
  clear_session_node_def db_delete_def

lemma one_failure_statuses:
  "\<exists>err reqs w1.
     launch_instances one_failure_env example_config None
       (build_node_request_queue (map init_new_node [''compute-01'', ''compute-02'', ''compute-03'']))
       (empty_world\<lparr>db_nodes := db_nodes empty_world @ [''compute-01'', ''compute-02'', ''compute-03''],
          db_commits := db_commits empty_world + 1\<rparr>) = Some (err, reqs, w1)
     \<and> map nr_status reqs = [Status_success, Status_error, Status_success]"
  by (simp add: worker_evals one_failure_env_def example_evals batch_evals)

theorem failure_raises_after_reconciliation_witness:
  "\<exists>e w'. addActiveNodes one_failure_env example_config None
             [''compute-01'', ''compute-02'', ''compute-03''] empty_world = Some (Inl e, w')
         \<and> (e = CommandFailed ''Fatal error launching one or more instances''
              \<or> e = KeyError ''message'')"
proof -
  from one_failure_statuses obtain err reqs w1 where
    li: "launch_instances one_failure_env example_config None
       (build_node_request_queue (map init_new_node [''compute-01'', ''compute-02'', ''compute-03'']))
       (empty_world\<lparr>db_nodes := db_nodes empty_world @ [''compute-01'', ''compute-02'', ''compute-03''],
          db_commits := db_commits empty_world + 1\<rparr>) = Some (err, reqs, w1)"
    and st: "map nr_status reqs = [Status_success, Status_error, Status_success]"
    by (elim exE conjE)
  from st have "Status_error \<in> set (map nr_status reqs)" by simp
  then have ex: "\<exists>r \<in> set reqs. nr_status r = Status_error" by force
  from failure_raises_after_reconciliation
         [where env = one_failure_env and cfg = example_config and extra = None
            and names = "[''compute-01'', ''compute-02'', ''compute-03'']" and w = empty_world
            and err = err and reqs = reqs and ?w1.0 = w1]
       li ex
  show ?thesis by blast
qed

text \<open>
  Claim C1 as stated fails. In a batch of three requests whose create calls all succeed
  and whose second operation ends with an \<open>error\<close> field, the call does not return the
  two good nodes: it raises \<open>CommandFailed\<close>. Before that, the two good nodes were marked
  provisioned and kept, the third was rolled back and the warning was logged.
\<close>

theorem partial_success_raises_counterexample:
  "map_option fst
     (addActiveNodes one_failure_env example_config None
        [''compute-01'', ''compute-02'', ''compute-03''] empty_world)
   = Some (Inl (CommandFailed ''Fatal error launching one or more instances''))
   \<and> map_option (provisioned_events \<circ> snd)
       (addActiveNodes one_failure_env example_config None
          [''compute-01'', ''compute-02'', ''compute-03''] empty_world)
     = Some [''compute-01'', ''compute-03'']
   \<and> map_option (db_nodes \<circ> snd)
       (addActiveNodes one_failure_env example_config None
          [''compute-01'', ''compute-02'', ''compute-03''] empty_world)
     = Some [''compute-01'', ''compute-03'']
   \<and> map_option (log \<circ> snd)
       (addActiveNodes one_failure_env example_config None
          [''compute-01'', ''compute-02'', ''compute-03''] empty_world)
     = Some [Error_gce ''Quota exceeded (QUOTA_EXCEEDED)'',
             Error_message ''Quota exceeded (QUOTA_EXCEEDED)'',
             Error_cleaning_up_failed_instance ''compute-02'' ''compute-02'',
             Warning_only_launched 2 3]"
  by (simp add: worker_evals one_failure_env_def example_evals batch_evals)


lemma instance_calls_append:
  "instance_calls (xs @ ys) = instance_calls xs @ instance_calls ys"
  by (induction xs rule: instance_calls.induct) simp_all

lemma deleteInstance_call:
  assumes "node_instance nd = Some im"
  shows "\<exists>p z. cloud_calls (snd (deleteInstance env cfg nd w))
                = cloud_calls w @
                    [InstancesDelete p z (get_instance_name_from_host_name (node_name nd))]"
proof -
  obtain project zone where pz:
    "get_project_and_zone_metadata_loop (im_instance_metadata im) None None = (project, zone)"
    by (cases "get_project_and_zone_metadata_loop (im_instance_metadata im) None None")
  show ?thesis
  proof (cases "env_instances_delete env (get_instance_name_from_host_name (node_name nd))")
    case None
    with assms pz show ?thesis
      by (simp add: deleteInstance_def record_call_def)
  next
    case (Some e)
    with assms pz show ?thesis
      by (cases e) (simp_all add: deleteInstance_def record_call_def record_log_def)
  qed
qed

lemma hook_raises_deletes_instance:
  assumes g: "gevent_wait_for_instance env cfg q w = Some (Inr True, q1, w1)"
      and h: "instance_post_launch env cfg q1 w1 = (Some exc, q2, w2)"
      and i: "node_instance (nr_node q) \<noteq> None"
  shows "\<exists>q' w3. wait_for_instance env cfg q w = Some (q', w3) \<and> \<not> succeeded q'
           \<and> Delete_call (get_instance_name_from_host_name (node_name (nr_node q)))
                \<in> set (instance_calls (cloud_calls w3))"
proof -
  let ?msg = "Some (post_launch_failure_message
                      (case nr_instance_name q2 of None \<Rightarrow> [] | Some i \<Rightarrow> i) exc)"
  let ?nd = "nr_node (mark_node_request_failed q2 ?msg)"
  let ?w = "record_log (Error_post_launch
                          (case nr_instance_name q2 of None \<Rightarrow> [] | Some i \<Rightarrow> i)) w2"
  from gevent_wait_for_instance_node [OF g] instance_post_launch_keeps [OF h]
  have nm: "node_name ?nd = node_name (nr_node q)"
    and inst: "node_instance ?nd = node_instance (nr_node q)"
    by simp_all
  from i inst obtain im where im: "node_instance ?nd = Some im" by auto
  from deleteInstance_call [OF im, of env cfg ?w] nm obtain p z where
    cc: "cloud_calls (snd (deleteInstance env cfg ?nd ?w))
           = cloud_calls ?w @
               [InstancesDelete p z (get_instance_name_from_host_name (node_name (nr_node q)))]"
    by auto
  obtain d w3 where del: "deleteInstance env cfg ?nd ?w = (d, w3)"
    by (cases "deleteInstance env cfg ?nd ?w")
  from cc del have in3: "Delete_call (get_instance_name_from_host_name (node_name (nr_node q)))
                \<in> set (instance_calls (cloud_calls w3))"
    by (simp add: instance_calls_append)
  show ?thesis
  proof (cases d)
    case None
    with g h del in3 show ?thesis
      by (simp add: wait_for_instance_def succeeded_def)
  next
    case (Some e)
    with g h del in3 show ?thesis
      by (simp add: wait_for_instance_def succeeded_def record_log_def)
  qed
qed

text \<open>
  Claim C2, as amended. The reconciliation returns the nodes of the requests in success
  status and, for every other request, removes the node record, the node's entry in the
  add-host session and each drive of the default adapter that the storage catalog lists
  as removed for the node. A worker whose post-launch hook raises has, for a node with an
  instance mapping, issued a delete call for the instance and left the request failed.
\<close>

theorem reconciliation_rolls_back_failed_requests:
  "(post_launch_action env reqs w = (result, w') \<longrightarrow>
      result = map provisioned (filter succeeded reqs)
      \<and> (\<forall>r \<in> set reqs. \<not> succeeded r \<longrightarrow>
            node_name (nr_node r) \<notin> set (db_nodes w')
            \<and> node_name (nr_node r) \<notin> set (session_nodes w')
            \<and> (\<forall>(k, d) \<in> set (env_removed_disks env (node_name (nr_node r))).
                  disk_adapter d = ''default'' \<longrightarrow>
                  (node_name (nr_node r), env_disk_index_int env k) \<notin> set (san_drives w'))))
   \<and> (gevent_wait_for_instance env cfg q w0 = Some (Inr True, q1, w1)
        \<and> instance_post_launch env cfg q1 w1 = (Some exc, q2, w2)
        \<and> node_instance (nr_node q) \<noteq> None \<longrightarrow>
        (\<exists>q' w3. wait_for_instance env cfg q w0 = Some (q', w3) \<and> \<not> succeeded q'
            \<and> Delete_call (get_instance_name_from_host_name (node_name (nr_node q)))
                 \<in> set (instance_calls (cloud_calls w3))))"
proof (intro conjI impI)
  assume p: "post_launch_action env reqs w = (result, w')"
  from post_launch_action_result [OF p]
  show "result = map provisioned (filter succeeded reqs)" by simp
next
  assume p: "post_launch_action env reqs w = (result, w')"
  show "\<forall>r \<in> set reqs. \<not> succeeded r \<longrightarrow>
            node_name (nr_node r) \<notin> set (db_nodes w')
            \<and> node_name (nr_node r) \<notin> set (session_nodes w')
            \<and> (\<forall>(k, d) \<in> set (env_removed_disks env (node_name (nr_node r))).
                  disk_adapter d = ''default'' \<longrightarrow>
                  (node_name (nr_node r), env_disk_index_int env k) \<notin> set (san_drives w'))"
    using post_launch_action_rollback [OF p] by blast
next
  assume a: "gevent_wait_for_instance env cfg q w0 = Some (Inr True, q1, w1)
        \<and> instance_post_launch env cfg q1 w1 = (Some exc, q2, w2)
        \<and> node_instance (nr_node q) \<noteq> None"
  then show "\<exists>q' w3. wait_for_instance env cfg q w0 = Some (q', w3) \<and> \<not> succeeded q'
            \<and> Delete_call (get_instance_name_from_host_name (node_name (nr_node q)))
                 \<in> set (instance_calls (cloud_calls w3))"
    using hook_raises_deletes_instance by blast
qed


theorem reconciliation_rolls_back_failed_requests_witness:
  "(\<exists>result w'.
      post_launch_action example_env [failed_request]
        (empty_world\<lparr>db_nodes := [''compute-02'']\<rparr>) = (result, w')
      \<and> result = [] \<and> ''compute-02'' \<notin> set (db_nodes w'))
   \<and> (\<exists>q' w3. wait_for_instance hook_fails_env example_config (submitted_request ''compute-01'')
                 empty_world = Some (q', w3)
         \<and> \<not> succeeded q'
         \<and> Delete_call ''compute-01'' \<in> set (instance_calls (cloud_calls w3)))"
proof -
  obtain result w' where p: "post_launch_action example_env [failed_request]
        (empty_world\<lparr>db_nodes := [''compute-02'']\<rparr>) = (result, w')"
    by (cases "post_launch_action example_env [failed_request]
        (empty_world\<lparr>db_nodes := [''compute-02'']\<rparr>)")
  have f: "failed_request \<in> set [failed_request] \<and> \<not> succeeded failed_request
           \<and> node_name (nr_node failed_request) = ''compute-02''
           \<and> filter succeeded [failed_request] = []"
    by (simp add: failed_request_def succeeded_def submitted_request_def init_new_node_def)
  have g: "gevent_wait_for_instance hook_fails_env example_config
             (submitted_request ''compute-01'') empty_world
           = Some (Inr True,
               (submitted_request ''compute-01'')\<lparr>nr_status := Status_success,
                  nr_result := Some (done_operation ''op-compute-01'')\<rparr>,
               empty_world\<lparr>cloud_calls :=
                  [ZoneOperationsGet ''proj'' ''op-compute-01'' ''us-central1-a'']\<rparr>)"
    by (simp add: worker_evals hook_fails_env_def example_evals)
  obtain q2 w2 where h: "instance_post_launch hook_fails_env example_config
               ((submitted_request ''compute-01'')\<lparr>nr_status := Status_success,
                  nr_result := Some (done_operation ''op-compute-01'')\<rparr>)
               (empty_world\<lparr>cloud_calls :=
                  [ZoneOperationsGet ''proj'' ''op-compute-01'' ''us-central1-a'']\<rparr>)
             = (Some (OtherException ''DNS update failed''), q2, w2)"
    by (simp add: worker_evals hook_fails_env_def example_evals)
  have i: "node_instance (nr_node (submitted_request ''compute-01'')) \<noteq> None
           \<and> get_instance_name_from_host_name
                (node_name (nr_node (submitted_request ''compute-01''))) = ''compute-01''"
    by (simp add: submitted_request_def init_new_node_def get_instance_name_from_host_name_def)
  from reconciliation_rolls_back_failed_requests
         [where env = example_env and reqs = "[failed_request]"
            and w = "empty_world\<lparr>db_nodes := [''compute-02'']\<rparr>" and result = result
            and w' = w' and cfg = example_config]
       p f
  have first: "result = [] \<and> ''compute-02'' \<notin> set (db_nodes w')" by auto
  from reconciliation_rolls_back_failed_requests
         [where env = hook_fails_env and cfg = example_config
            and q = "submitted_request ''compute-01''" and ?w0.0 = empty_world
            and ?q2.0 = q2 and ?w2.0 = w2 and exc = "OtherException ''DNS update failed''"]
       g h i
  have second: "\<exists>q' w3. wait_for_instance hook_fails_env example_config
                 (submitted_request ''compute-01'') empty_world = Some (q', w3)
         \<and> \<not> succeeded q'
         \<and> Delete_call ''compute-01'' \<in> set (instance_calls (cloud_calls w3))"
    by auto
  from p first second show ?thesis by blast
qed

text \<open>
  Claim C2 as stated fails twice. When the create call of the second request is refused,
  the call raises and the node records are gone, but the instance of the first request,
  whose create call had been accepted, gets no delete call. And when the instance of a
  request is gone at the time of the post-launch hook (the gateway answers 404), the
  request stays in success and its node is returned.
\<close>

theorem lingering_instance_counterexample:
  "env_instances_insert second_create_refused_env ''compute-01''
     = Inr (submitted_operation ''op-compute-01'')
   \<and> map_option fst
       (addActiveNodes second_create_refused_env example_config None
          [''compute-01'', ''compute-02''] empty_world)
     = Some (Inl (HttpError 503))
   \<and> map_option (instance_calls \<circ> cloud_calls \<circ> snd)
       (addActiveNodes second_create_refused_env example_config None
          [''compute-01'', ''compute-02''] empty_world)
     = Some [Create_call ''compute-01'', Create_call ''compute-02'']
   \<and> map_option (db_nodes \<circ> snd)
       (addActiveNodes second_create_refused_env example_config None
          [''compute-01'', ''compute-02''] empty_world)
     = Some []
   \<and> env_instances_get instance_gone_env ''compute-01'' = Inl (HttpError 404)
   \<and> map_option fst
       (addActiveNodes instance_gone_env example_config None [''compute-01''] empty_world)
     = Some (Inr [\<lparr>node_name = ''compute-01'', node_state = NODE_STATE_PROVISIONED,
                   node_nics = [],
                   node_instance = Some \<lparr>im_instance = ''compute-01'',
                     im_instance_metadata = [(''zone'', ''us-central1-a'')]\<rparr>\<rparr>])"
  by (simp add: worker_evals second_create_refused_env_def instance_gone_env_def example_evals
        batch_evals)

subsection \<open>Malformed settings\<close>

lemma network_interface_loop_invalid_flag:
  "\<exists>n \<in> set ns. \<not> flags_valid n \<Longrightarrow> \<exists>e. network_interface_loop p r ns prim acc = Inl e"
proof (induction ns arbitrary: prim acc)
  case Nil
  then show ?case by simp
next
  case (Cons n ns)
  show ?case
  proof (cases "get_network_interface p r n")
    case (Inl e)
    then show ?thesis by simp
  next
    case (Inr pr)
    obtain ni flags where pr: "pr = (ni, flags)" by (cases pr)
    from get_network_interface_flags [OF Inr [unfolded pr]] have "flags_valid n"
      by (simp add: flags_valid_def)
    with Cons.prems have "\<exists>n \<in> set ns. \<not> flags_valid n" by auto
    from Cons.IH [OF this] show ?thesis using Inr pr by auto
  qed
qed

lemma get_network_interface_definitions_rejects:
  assumes "2 \<le> length (filter primary_flagged networks) \<or> (\<exists>n \<in> set networks. \<not> flags_valid n)"
  shows "\<exists>m. get_network_interface_definitions p r networks = Inl (ConfigurationError m)"
proof -
  from assms obtain e where e: "network_interface_loop p r networks None [] = Inl e"
    using network_interface_loop_duplicate network_interface_loop_invalid_flag by blast
  then obtain m where "e = ConfigurationError m"
    using network_interface_loop_error by blast
  with e show ?thesis by (simp add: get_network_interface_definitions_def)
qed

lemma parse_accelerator_loop_shape:
  assumes "list_all (\<lambda>s. length (split_on CHR '':'' (strip s)) = 2 \<longrightarrow>
                 (case py_int (split_on CHR '':'' (strip s) ! 1) of
                    Inl _ \<Rightarrow> False | Inr _ \<Rightarrow> True)) ss"
      and "\<not> list_all (\<lambda>s. length (split_on CHR '':'' (strip s)) = 2) ss"
  shows "parse_accelerator_loop ss accel = Inl (ConfigurationError ''Invalid Accelerator Configuration'')"
  using assms
proof (induction ss arbitrary: accel)
  case Nil
  then show ?case by simp
next
  case (Cons s ss)
  show ?case
  proof (cases "length (split_on CHR '':'' (strip s)) = 2")
    case True
    then obtain t c where tc: "split_on CHR '':'' (strip s) = [t, c]"
      by (auto simp: numeral_2_eq_2 length_Suc_conv)
    with Cons.prems(1) obtain n where n: "py_int c = Inr n"
      by (auto split: sum.splits)
    from Cons.prems True have "list_all (\<lambda>s. length (split_on CHR '':'' (strip s)) = 2 \<longrightarrow>
                 (case py_int (split_on CHR '':'' (strip s) ! 1) of
                    Inl _ \<Rightarrow> False | Inr _ \<Rightarrow> True)) ss"
      and "\<not> list_all (\<lambda>s. length (split_on CHR '':'' (strip s)) = 2) ss"
      by auto
    from Cons.IH [OF this] show ?thesis using tc n by simp
  next
    case False
    then show ?thesis
      by (auto split: list.splits)
  qed
qed

lemma resolve_image_calls:
  assumes "resolve_image env cfg w = (res, w')"
  shows "\<exists>cs. cloud_calls w' = cloud_calls w @ cs \<and> length cs \<le> 1
            \<and> (\<forall>c \<in> set cs. is_image_lookup c)"
proof (cases "conf_image cfg")
  case (Image s)
  with assms show ?thesis
    by (auto simp: resolve_image_def gce_get_image_by_name_def record_call_def is_image_lookup_def
          split: sum.splits error.splits)
next
  case (Image_family s)
  with assms show ?thesis
    by (auto simp: resolve_image_def gce_get_image_family_url_def record_call_def
          is_image_lookup_def split: sum.splits error.splits)
next
  case (Image_url u)
  with assms show ?thesis by (auto simp: resolve_image_def)
qed

lemma get_common_launch_args_world:
  assumes "get_common_launch_args env cfg extra w = (res, w')"
  shows "w' = snd (resolve_image env cfg w)"
  using assms
  by (auto simp: get_common_launch_args_def split: prod.splits sum.splits option.splits)


text \<open>
  Claim C9, as amended. Computing the common launch arguments makes at most one gateway
  call, an image lookup, and when it raises, the launch raises the same error with no
  further call: no disk or instance is created. Once the image is resolved, two or more
  primary networks or a network entry with an unknown flag raise \<open>ConfigurationError\<close>;
  and once the networks are resolved too, an accelerator string with an entry that has
  not exactly two parts, all counts of the two-part entries being integers, raises
  \<open>ConfigurationError\<close>.
\<close>

theorem configuration_errors_precede_creates:
  "(get_common_launch_args env cfg extra w = (res, w') \<longrightarrow>
      length (new_calls w w') \<le> 1
      \<and> (\<forall>c \<in> set (new_calls w w'). is_image_lookup c)
      \<and> (\<forall>e. res = Inl e \<longrightarrow>
             launch_instances env cfg extra reqs w = Some (Some e, reqs, w')))
   \<and> (resolve_image env cfg w = (Inr url, w1)
        \<and> (2 \<le> length (filter primary_flagged (conf_networks cfg))
             \<or> (\<exists>n \<in> set (conf_networks cfg). \<not> flags_valid n)) \<longrightarrow>
        (\<exists>m. get_common_launch_args env cfg extra w = (Inl (ConfigurationError m), w1)))
   \<and> (resolve_image env cfg w = (Inr url, w1)
        \<and> get_network_interface_definitions (conf_project cfg) (conf_region cfg)
             (conf_networks cfg) = Inr nis
        \<and> conf_accelerators cfg = Some a
        \<and> accelerator_counts_ok a \<and> \<not> accelerator_shapes_ok a \<longrightarrow>
        get_common_launch_args env cfg extra w
          = (Inl (ConfigurationError ''Invalid Accelerator Configuration''), w1))"
proof (intro conjI impI)
  assume g: "get_common_launch_args env cfg extra w = (res, w')"
  obtain ires where ri: "resolve_image env cfg w = (ires, w')"
    using get_common_launch_args_world [OF g] by (cases "resolve_image env cfg w") simp
  from resolve_image_calls [OF ri] obtain cs where
    cs: "cloud_calls w' = cloud_calls w @ cs" "length cs \<le> 1" "\<forall>c \<in> set cs. is_image_lookup c"
    by blast
  then have nc: "new_calls w w' = cs" by (simp add: new_calls_def)
  show "length (new_calls w w') \<le> 1" using nc cs by simp
  show "\<forall>c \<in> set (new_calls w w'). is_image_lookup c" using nc cs by simp
  show "\<forall>e. res = Inl e \<longrightarrow> launch_instances env cfg extra reqs w = Some (Some e, reqs, w')"
    using g by (simp add: launch_instances_def)
next
  assume a: "resolve_image env cfg w = (Inr url, w1)
        \<and> (2 \<le> length (filter primary_flagged (conf_networks cfg))
             \<or> (\<exists>n \<in> set (conf_networks cfg). \<not> flags_valid n))"
  then obtain m where "get_network_interface_definitions (conf_project cfg) (conf_region cfg)
      (conf_networks cfg) = Inl (ConfigurationError m)"
    using get_network_interface_definitions_rejects by blast
  with a show "\<exists>m. get_common_launch_args env cfg extra w = (Inl (ConfigurationError m), w1)"
    by (simp add: get_common_launch_args_def)
next
  assume a: "resolve_image env cfg w = (Inr url, w1)
        \<and> get_network_interface_definitions (conf_project cfg) (conf_region cfg)
             (conf_networks cfg) = Inr nis
        \<and> conf_accelerators cfg = Some a
        \<and> accelerator_counts_ok a \<and> \<not> accelerator_shapes_ok a"
  then have "parse_accelerator a = Inl (ConfigurationError ''Invalid Accelerator Configuration'')"
    unfolding parse_accelerator_def accelerator_counts_ok_def accelerator_shapes_ok_def
    using parse_accelerator_loop_shape by blast
  with a show "get_common_launch_args env cfg extra w
          = (Inl (ConfigurationError ''Invalid Accelerator Configuration''), w1)"
    by (simp add: get_common_launch_args_def)
qed

lemma two_primaries_image:
  "resolve_image example_env two_primaries_config empty_world
     = (Inr ''img'', empty_world\<lparr>cloud_calls := [ImagesGet None ''img'']\<rparr>)"
  by (simp add: resolve_image_def two_primaries_config_def example_evals
        gce_get_image_by_name_def split_image_project_def record_call_def)

theorem configuration_errors_precede_creates_witness:
  "(\<exists>m. get_common_launch_args example_env two_primaries_config None empty_world
          = (Inl (ConfigurationError m), empty_world\<lparr>cloud_calls := [ImagesGet None ''img'']\<rparr>)
        \<and> launch_instances example_env two_primaries_config None [pending_request ''compute-01'']
            empty_world
          = Some (Some (ConfigurationError m), [pending_request ''compute-01''],
                  empty_world\<lparr>cloud_calls := [ImagesGet None ''img'']\<rparr>))
   \<and> get_common_launch_args example_env
        (example_config\<lparr>conf_accelerators := Some ''nvidia-tesla-k80''\<rparr>) None empty_world
      = (Inl (ConfigurationError ''Invalid Accelerator Configuration''), empty_world)"
proof -
  have two: "2 \<le> length (filter primary_flagged (conf_networks two_primaries_config))"
    by (simp add: two_primaries_config_def example_config_def flag_evals)
  from configuration_errors_precede_creates
         [where env = example_env and cfg = two_primaries_config and w = empty_world
            and url = "''img''" and ?w1.0 = "empty_world\<lparr>cloud_calls := [ImagesGet None ''img'']\<rparr>"
            and extra = None]
       two_primaries_image two
  obtain m where m: "get_common_launch_args example_env two_primaries_config None empty_world
          = (Inl (ConfigurationError m), empty_world\<lparr>cloud_calls := [ImagesGet None ''img'']\<rparr>)"
    by blast
  from configuration_errors_precede_creates
         [where env = example_env and cfg = two_primaries_config and w = empty_world
            and extra = None and res = "Inl (ConfigurationError m)"
            and w' = "empty_world\<lparr>cloud_calls := [ImagesGet None ''img'']\<rparr>"
            and reqs = "[pending_request ''compute-01'']"]
       m
  have l: "launch_instances example_env two_primaries_config None [pending_request ''compute-01'']
            empty_world
          = Some (Some (ConfigurationError m), [pending_request ''compute-01''],
                  empty_world\<lparr>cloud_calls := [ImagesGet None ''img'']\<rparr>)"
    by blast
  have ri: "resolve_image example_env (example_config\<lparr>conf_accelerators := Some ''nvidia-tesla-k80''\<rparr>)
              empty_world
            = (Inr ''https://www.googleapis.com/compute/v1/projects/proj/global/images/img'',
               empty_world)"
    by (simp add: resolve_image_def example_config_def)
  have ni: "\<exists>nis. get_network_interface_definitions
              (conf_project (example_config\<lparr>conf_accelerators := Some ''nvidia-tesla-k80''\<rparr>))
              (conf_region (example_config\<lparr>conf_accelerators := Some ''nvidia-tesla-k80''\<rparr>))
              (conf_networks (example_config\<lparr>conf_accelerators := Some ''nvidia-tesla-k80''\<rparr>))
            = Inr nis"
    by (simp add: example_config_def get_network_interface_definitions_def
          get_network_interface_def split_forward_slash_value_def get_network_flags_def
          enable_external_network_access_def)
  have acc: "conf_accelerators (example_config\<lparr>conf_accelerators := Some ''nvidia-tesla-k80''\<rparr>)
               = Some ''nvidia-tesla-k80''
             \<and> accelerator_counts_ok ''nvidia-tesla-k80''
             \<and> \<not> accelerator_shapes_ok ''nvidia-tesla-k80''"
    by (simp add: accelerator_counts_ok_def accelerator_shapes_ok_def strip_def is_space_def)
  from ni obtain nis where nis: "get_network_interface_definitions
              (conf_project (example_config\<lparr>conf_accelerators := Some ''nvidia-tesla-k80''\<rparr>))
              (conf_region (example_config\<lparr>conf_accelerators := Some ''nvidia-tesla-k80''\<rparr>))
              (conf_networks (example_config\<lparr>conf_accelerators := Some ''nvidia-tesla-k80''\<rparr>))
            = Inr nis" by blast
  from configuration_errors_precede_creates
         [where env = example_env
            and cfg = "example_config\<lparr>conf_accelerators := Some ''nvidia-tesla-k80''\<rparr>"
            and w = empty_world and ?w1.0 = empty_world and extra = None
            and url = "''https://www.googleapis.com/compute/v1/projects/proj/global/images/img''"
            and nis = nis and a = "''nvidia-tesla-k80''"]
       ri nis acc
  have a: "get_common_launch_args example_env
        (example_config\<lparr>conf_accelerators := Some ''nvidia-tesla-k80''\<rparr>) None empty_world
      = (Inl (ConfigurationError ''Invalid Accelerator Configuration''), empty_world)"
    by blast
  from m l a show ?thesis by blast
qed

text \<open>
  Claim C9 as stated fails in three ways. A zone without a hyphen raises \<open>KeyError\<close>,
  because the handler formats the \<open>region\<close> key that was never set. An accelerator
  count that is not an integer raises \<open>ValueError\<close>. And with the image configured by
  name, the error for two primary networks is raised after the image lookup, a gateway
  call.
\<close>

theorem malformed_settings_counterexample:
  "process_config \<lparr>cfg_zone = ''uscentral1a'', cfg_region = None, cfg_network = None,
                   cfg_networks = None\<rparr> = Inl (KeyError ''region'')
   \<and> parse_accelerator ''nvidia-tesla-k80:two''
       = Inl (ValueError (''invalid literal for int() with base 10: ''
                          @ [CHR 0x27] @ ''two'' @ [CHR 0x27]))
   \<and> get_common_launch_args example_env two_primaries_config None empty_world
       = (Inl (ConfigurationError
                 ''Only one interface may be primary: net-b is already marked as primary''),
          empty_world\<lparr>cloud_calls := [ImagesGet None ''img'']\<rparr>)"
proof -
  have z: "process_config \<lparr>cfg_zone = ''uscentral1a'', cfg_region = None, cfg_network = None,
                   cfg_networks = None\<rparr> = Inl (KeyError ''region'')"
    by (simp add: process_config_def rsplit1_def)
  have a: "parse_accelerator ''nvidia-tesla-k80:two''
       = Inl (ValueError (''invalid literal for int() with base 10: ''
                          @ [CHR 0x27] @ ''two'' @ [CHR 0x27]))"
    by (simp add: parse_accelerator_def strip_def is_space_def py_int_def is_digit_def)
  have n: "get_network_interface_definitions (conf_project two_primaries_config)
             (conf_region two_primaries_config) (conf_networks two_primaries_config)
           = Inl (ConfigurationError
                 ''Only one interface may be primary: net-b is already marked as primary'')"
    by (simp add: two_primaries_config_def example_config_def
          get_network_interface_definitions_def get_network_interface_def
          split_forward_slash_value_def flag_evals)
  have g: "get_common_launch_args example_env two_primaries_config None empty_world
       = (Inl (ConfigurationError
                 ''Only one interface may be primary: net-b is already marked as primary''),
          empty_world\<lparr>cloud_calls := [ImagesGet None ''img'']\<rparr>)"
    by (simp add: get_common_launch_args_def two_primaries_image n)
  from z a g show ?thesis by simp
qed

end
